theory Spec2Isabelle
  imports Complex_Main
begin

section \<open>Strings as Python sees them\<close>

text \<open>
  Texts are lists of 8-bit characters read as the code points 0 to 255. The character
  classes are the ones Python 3 uses for \<open>str\<close> on that range: \<open>str.isspace\<close> (which is
  also what \<open>strip\<close>, \<open>split\<close> and the pattern \<open>\s\<close> use), the pattern \<open>\d\<close>, the pattern
  \<open>\w\<close> and \<open>str.lower\<close>.
\<close>

definition is_space :: "char \<Rightarrow> bool" where
  "is_space c = (of_char c \<in> {9, 10, 11, 12, 13, 28, 29, 30, 31, 32, 133, 160 :: nat})"

definition is_digit :: "char \<Rightarrow> bool" where
  "is_digit c = (48 \<le> (of_char c :: nat) \<and> (of_char c :: nat) \<le> 57)"

definition is_word :: "char \<Rightarrow> bool" where
  "is_word c =
     (let n = (of_char c :: nat)
      in (48 \<le> n \<and> n \<le> 57) \<or> (65 \<le> n \<and> n \<le> 90) \<or> n = 95 \<or> (97 \<le> n \<and> n \<le> 122)
         \<or> n \<in> {170, 178, 179, 181, 185, 186, 188, 189, 190}
         \<or> (192 \<le> n \<and> n \<le> 214) \<or> (216 \<le> n \<and> n \<le> 246) \<or> 248 \<le> n)"

definition is_hex :: "char \<Rightarrow> bool" where
  "is_hex c =
     (let n = (of_char c :: nat)
      in (48 \<le> n \<and> n \<le> 57) \<or> (97 \<le> n \<and> n \<le> 102) \<or> (65 \<le> n \<and> n \<le> 70))"

definition lower_char :: "char \<Rightarrow> char" where
  "lower_char c =
     (let n = (of_char c :: nat)
      in if (65 \<le> n \<and> n \<le> 90) \<or> (192 \<le> n \<and> n \<le> 214) \<or> (216 \<le> n \<and> n \<le> 222)
         then char_of (n + 32) else c)"

definition lower :: "string \<Rightarrow> string" where
  "lower s = map lower_char s"

definition strip :: "string \<Rightarrow> string" where
  "strip s = rev (dropWhile is_space (rev (dropWhile is_space s)))"

text \<open>\<open>str.split()\<close> without argument: the maximal runs of non-whitespace characters.\<close>

fun split_from :: "string \<Rightarrow> string \<Rightarrow> string list" where
  "split_from cur [] = (if cur = [] then [] else [cur])"
| "split_from cur (c # cs) =
     (if is_space c then (if cur = [] then split_from [] cs else cur # split_from [] cs)
      else split_from (cur @ [c]) cs)"

definition split :: "string \<Rightarrow> string list" where
  "split s = split_from [] s"

text \<open>\<open>" ".join(tokens)\<close>\<close>

fun join_space :: "string list \<Rightarrow> string" where
  "join_space [] = []"
| "join_space [t] = t"
| "join_space (t # ts) = t @ CHR '' '' # join_space ts"

subsection \<open>The regular-expression substitutions of the normalizer\<close>

text \<open>\<open>re.sub(r"\\[tn]", " ", text)\<close>: a backslash followed by \<open>t\<close> or \<open>n\<close> becomes one space.\<close>

fun sub_escape_tn :: "string \<Rightarrow> string" where
  "sub_escape_tn (a # b # cs) =
     (if a = CHR 0x5C \<and> (b = CHR ''t'' \<or> b = CHR ''n'') then CHR '' '' # sub_escape_tn cs
      else a # sub_escape_tn (b # cs))"
| "sub_escape_tn cs = cs"

text \<open>\<open>re.sub(r"\\u[0-9a-fA-F]{4}", " ", text)\<close>\<close>

fun sub_escape_u :: "string \<Rightarrow> string" where
  "sub_escape_u (a # b # c # d # e # f # cs) =
     (if a = CHR 0x5C \<and> b = CHR ''u'' \<and> is_hex c \<and> is_hex d \<and> is_hex e \<and> is_hex f
      then CHR '' '' # sub_escape_u cs
      else a # sub_escape_u (b # c # d # e # f # cs))"
| "sub_escape_u cs = cs"

text \<open>\<open>re.sub(r"\\+", "", text)\<close>, \<open>re.sub(r"\d+", "", text)\<close>, \<open>re.sub(r"[^\w\s]", "", text)\<close>\<close>

definition sub_backslashes :: "string \<Rightarrow> string" where
  "sub_backslashes s = filter (\<lambda>c. c \<noteq> CHR 0x5C) s"

definition sub_digits :: "string \<Rightarrow> string" where
  "sub_digits s = filter (\<lambda>c. \<not> is_digit c) s"

definition sub_punctuation :: "string \<Rightarrow> string" where
  "sub_punctuation s = filter (\<lambda>c. is_word c \<or> is_space c) s"

text \<open>\<open>re.sub(r"\s+", " ", text)\<close>: the flag says that the previous character was whitespace.\<close>

fun sub_spaces :: "bool \<Rightarrow> string \<Rightarrow> string" where
  "sub_spaces in_run [] = []"
| "sub_spaces in_run (c # cs) =
     (if is_space c then (if in_run then sub_spaces True cs else CHR '' '' # sub_spaces True cs)
      else c # sub_spaces False cs)"


section \<open>Data model\<close>

text \<open>
  A raw record as the document store returns it: \<open>doc_id\<close> is the store's key, which
  the fetch writes into the field \<open>id\<close>. A field is \<open>None\<close> when the document does not
  have it (pandas then holds NaN); a value that is not text stands here as its \<open>str\<close>.
\<close>

record document =
  doc_id :: string
  raw_deskripsi :: "string option"
  raw_kategori :: "string option"
  raw_namaInovasi :: "string option"
  raw_namaInnovator :: "string option"
  raw_images :: "string list option"
  raw_tahunDibuat :: "string option"

text \<open>
  A row of the data frame. The columns \<open>combined_features\<close> and \<open>processed_text\<close> are
  empty until the rebuild fills them.
\<close>

record row =
  id_col :: string
  deskripsi :: string
  kategori :: string
  namaInovasi :: string
  namaInnovator :: string
  images :: "string list option"
  tahunDibuat :: "string option"
  combined_features :: string
  processed_text :: string

text \<open>The result record \<open>RecommendationResponse\<close>.\<close>

record response =
  rec_id :: string
  rec_inovasi :: string
  rec_kategori :: string
  rec_deskripsi :: string
  rec_namaInnovator :: string
  rec_images :: "string list"
  rec_tahunDibuat :: "string option"
  similarity_score :: real

text \<open>
  A fitted \<open>TfidfVectorizer\<close>: \<open>transform\<close> projects texts into the fitted space (\<open>None\<close>
  when the library raises), \<open>n_features\<close> is the size of its vocabulary.
\<close>

record vectorizer =
  transform :: "string list \<Rightarrow> real list list option"
  n_features :: nat

text \<open>The attributes of \<open>RecommendationEngine\<close> (the lock is modelled with the threads below).\<close>

record engine =
  df :: "row list option"
  tfidf :: "vectorizer option"
  cosine_sim :: "real list list option"
  cache_ttl :: int
  last_update :: real
  is_initialized :: bool

text \<open>
  What the engine calls and does not define itself. \<open>get_stemmer\<close> is \<open>None\<close> when the
  stemmer factory raises, and the stemmer returns \<open>None\<close> on a token where \<open>stem\<close>
  raises. \<open>fit_transform\<close> is \<open>TfidfVectorizer(...).fit_transform\<close> with the parameters of
  \<open>_build_tfidf_matrix\<close>, \<open>sk_cosine_similarity\<close> is scikit-learn's \<open>cosine_similarity\<close>
  and \<open>argsort\<close> is numpy's (each \<open>None\<close> when the library raises). \<open>np_round\<close> is
  \<open>round(score, 4)\<close> on a numpy float. \<open>validate_response\<close> says whether the
  constructor of \<open>RecommendationResponse\<close> accepts the fields, and \<open>future_fails k\<close>
  whether the \<open>k\<close>-th worker task of a call misses its timeout.

  A score or a matrix entry is a 64-bit float, taken here as the real number it denotes
  (the libraries return no NaN). The engine itself only compares scores; all arithmetic
  on them is done by these library functions, in floating point, so nothing below
  assumes how they compute.
\<close>

record env =
  cached_stopwords :: "string set"
  get_stemmer :: "(string \<Rightarrow> string option) option"
  fit_transform :: "string list \<Rightarrow> (vectorizer \<times> real list list) option"
  sk_cosine_similarity :: "real list list \<Rightarrow> real list list \<Rightarrow> real list list option"
  argsort :: "real list \<Rightarrow> nat list"
  np_round :: "real \<Rightarrow> real"
  validate_response :: "response \<Rightarrow> bool"
  future_fails :: "nat \<Rightarrow> bool"

text \<open>
  The world outside the process: the \<open>k\<close>-th call of \<open>time.time()\<close> returns \<open>clock k\<close>,
  and the \<open>k\<close>-th fetch returns \<open>store k\<close>, the documents that could be read (none when
  the store is empty or unreachable). \<open>reads\<close> and \<open>fetches\<close> count the calls made so far.
\<close>

record world =
  clock :: "nat \<Rightarrow> real"
  reads :: nat
  store :: "nat \<Rightarrow> document list"
  fetches :: nat

datatype error = StemmerUnavailable

section \<open>Text normalizer (text_processing.py)\<close>

fun stem_tokens :: "(string \<Rightarrow> string option) \<Rightarrow> string list \<Rightarrow> string list option" where
  "stem_tokens st [] = Some []"
| "stem_tokens st (t # ts) =
     (case st t of
        None \<Rightarrow> None
      | Some r \<Rightarrow> (case stem_tokens st ts of None \<Rightarrow> None | Some rs \<Rightarrow> Some (r # rs)))"

text \<open>
  The \<open>try\<close> block of step 8: when \<open>get_stemmer()\<close> or any \<open>stemmer.stem(token)\<close>
  raises, the assignment does not happen and \<open>tokens\<close> keeps the unstemmed list.
\<close>

definition try_stemming :: "env \<Rightarrow> string list \<Rightarrow> string list" where
  "try_stemming e tokens =
     (case get_stemmer e of
        None \<Rightarrow> tokens
      | Some st \<Rightarrow> (case stem_tokens st tokens of None \<Rightarrow> tokens | Some stems \<Rightarrow> stems))"

definition preprocess_text :: "env \<Rightarrow> string \<Rightarrow> string set option \<Rightarrow> string" where
  "preprocess_text e text stop_words =
     (if text = [] then []
      else let text = strip text in
        if text = [] then []
        else let text = lower text;
                 text = sub_escape_tn text;
                 text = sub_escape_u text;
                 text = sub_backslashes text;
                 text = sub_digits text;
                 text = sub_punctuation text;
                 text = strip (sub_spaces False text);
                 tokens = filter (\<lambda>token. strip token \<noteq> [] \<and> length token > 1) (split text)
             in if tokens = [] then []
                else let stop_words = (case stop_words of None \<Rightarrow> cached_stopwords e | Some sw \<Rightarrow> sw);
                         tokens = filter (\<lambda>word. word \<notin> stop_words) tokens
                     in if tokens = [] then []
                        else let tokens = try_stemming e tokens;
                                 tokens = filter (\<lambda>token. token \<noteq> [] \<and> length token > 1) tokens
                             in join_space tokens)"

text \<open>
  \<open>batch_preprocess_text\<close>: \<open>get_stemmer()\<close> is called outside any \<open>try\<close>, so its failure
  leaves the function as an exception. \<open>preprocess_text\<close> returns on every string, so the
  per-item \<open>except\<close> branch is never taken.
\<close>

definition batch_preprocess_text :: "env \<Rightarrow> string list \<Rightarrow> string set option \<Rightarrow> error + string list" where
  "batch_preprocess_text e texts stop_words =
     (let stop_words = (case stop_words of None \<Rightarrow> cached_stopwords e | Some sw \<Rightarrow> sw)
      in case get_stemmer e of
           None \<Rightarrow> Inl StemmerUnavailable
         | Some stemmer \<Rightarrow> Inr (map (\<lambda>text. preprocess_text e text (Some stop_words)) texts))"


section \<open>Library functions\<close>

text \<open>
  Python's slice \<open>xs[a:b]\<close> and \<open>xs[a:]\<close> for integers \<open>a\<close>, \<open>b\<close>: a negative bound counts
  from the end, and every bound is clamped to the list.
\<close>

definition slice_bound :: "int \<Rightarrow> nat \<Rightarrow> nat" where
  "slice_bound k n = (if k < 0 then nat (max 0 (k + int n)) else min (nat k) n)"

definition slice :: "'a list \<Rightarrow> int \<Rightarrow> int \<Rightarrow> 'a list" where
  "slice xs a b =
     (let lo = slice_bound a (length xs); hi = slice_bound b (length xs)
      in take (hi - lo) (drop lo xs))"

definition slice_from :: "'a list \<Rightarrow> int \<Rightarrow> 'a list" where
  "slice_from xs a = drop (slice_bound a (length xs)) xs"

text \<open>
  \<open>sorted(pairs, key=lambda x: x[1], reverse=True)\<close>: Python's sort is stable, and with
  \<open>reverse=True\<close> elements of equal key keep their original order. \<open>sort_key\<close> is a stable
  insertion sort, here on the negated score.
\<close>

definition sorted_by_score_desc :: "(nat \<times> real) list \<Rightarrow> (nat \<times> real) list" where
  "sorted_by_score_desc pairs = sort_key (\<lambda>x. - snd x) pairs"

section \<open>Recommendation engine (recommendation_service.py)\<close>

definition time_time :: "world \<Rightarrow> real \<times> world" where
  "time_time w = (clock w (reads w), w\<lparr>reads := reads w + 1\<rparr>)"

text \<open>
  \<open>_fetch_innovations_from_firebase\<close>: every exception ends in the empty list, and a
  document that cannot be read is skipped; both are in what \<open>store\<close> returns.
\<close>

definition fetch_innovations_from_firebase :: "world \<Rightarrow> document list \<times> world" where
  "fetch_innovations_from_firebase w = (store w (fetches w), w\<lparr>fetches := fetches w + 1\<rparr>)"

definition or_empty :: "string option \<Rightarrow> string" where
  "or_empty v = (case v of None \<Rightarrow> [] | Some t \<Rightarrow> t)"

definition validate_and_clean_data :: "document list \<Rightarrow> row list" where
  "validate_and_clean_data data =
     (if data = [] then []
      else map (\<lambda>d. \<lparr>id_col = doc_id d,
                     deskripsi = or_empty (raw_deskripsi d),
                     kategori = or_empty (raw_kategori d),
                     namaInovasi = or_empty (raw_namaInovasi d),
                     namaInnovator = or_empty (raw_namaInnovator d),
                     images = raw_images d,
                     tahunDibuat = raw_tahunDibuat d,
                     combined_features = [],
                     processed_text = []\<rparr>)
             (filter (\<lambda>d. strip (doc_id d) \<noteq> []) data))"

definition create_combined_features :: "row list \<Rightarrow> row list" where
  "create_combined_features d =
     map (\<lambda>r. r\<lparr>combined_features := deskripsi r @ '' '' @ kategori r\<rparr>) d"

definition batch_preprocess_texts :: "env \<Rightarrow> string list \<Rightarrow> error + string list" where
  "batch_preprocess_texts e texts = batch_preprocess_text e texts None"

definition build_tfidf_matrix :: "env \<Rightarrow> string list \<Rightarrow> (vectorizer \<times> real list list) option" where
  "build_tfidf_matrix e processed_texts =
     (let valid_texts = filter (\<lambda>text. strip text \<noteq> []) processed_texts
      in if length valid_texts < 2 then None else fit_transform e processed_texts)"

definition calculate_similarity_matrix :: "env \<Rightarrow> real list list \<Rightarrow> real list list option" where
  "calculate_similarity_matrix e tfidf_matrix =
     (if length tfidf_matrix > 1000 then sk_cosine_similarity e tfidf_matrix tfidf_matrix
      else sk_cosine_similarity e tfidf_matrix tfidf_matrix)"

text \<open>
  The region under \<open>with self.lock\<close>, with the \<open>current_time\<close> read before it. Every
  \<open>return False\<close> and the \<open>except\<close> branch leave the attributes as they are; the five
  assignments of step 7 are the only writes.
\<close>

definition rebuild :: "env \<Rightarrow> real \<Rightarrow> engine \<Rightarrow> world \<Rightarrow> bool \<times> engine \<times> world" where
  "rebuild e current_time s w =
     (let (data, w) = fetch_innovations_from_firebase w
      in if data = [] then (False, s, w)
         else let d = validate_and_clean_data data
              in if d = [] then (False, s, w)
                 else let d = create_combined_features d
                      in case batch_preprocess_texts e (map combined_features d) of
                           Inl err \<Rightarrow> (False, s, w)
                         | Inr processed_texts \<Rightarrow>
                            (let valid_indices =
                                   filter (\<lambda>i. strip (processed_texts ! i) \<noteq> []) [0..<length processed_texts]
                             in if length valid_indices < 2 then (False, s, w)
                                else let d = map (\<lambda>i. (d ! i)\<lparr>processed_text := processed_texts ! i\<rparr>) valid_indices;
                                         processed_texts = map (\<lambda>i. processed_texts ! i) valid_indices
                                     in case build_tfidf_matrix e processed_texts of
                                          None \<Rightarrow> (False, s, w)
                                        | Some (tf, tfidf_matrix) \<Rightarrow>
                                           (case calculate_similarity_matrix e tfidf_matrix of
                                              None \<Rightarrow> (False, s, w)
                                            | Some sim \<Rightarrow>
                                               (True,
                                                s\<lparr>df := Some d, tfidf := Some tf, cosine_sim := Some sim,
                                                  last_update := current_time, is_initialized := True\<rparr>,
                                                w))))"

definition initialize_model :: "env \<Rightarrow> bool \<Rightarrow> engine \<Rightarrow> world \<Rightarrow> bool \<times> engine \<times> world" where
  "initialize_model e force_refresh s w =
     (let (current_time, w) = time_time w
      in if \<not> force_refresh \<and> is_initialized s \<and> current_time - last_update s < of_int (cache_ttl s)
         then (True, s, w)
         else rebuild e current_time s w)"

text \<open>The constructor: fresh attributes, then one call of \<open>initialize_model\<close>.\<close>

definition new_engine :: "int \<Rightarrow> engine" where
  "new_engine ttl =
     \<lparr>df = None, tfidf = None, cosine_sim = None, cache_ttl = ttl, last_update = 0,
      is_initialized = False\<rparr>"

definition init :: "env \<Rightarrow> int \<Rightarrow> world \<Rightarrow> engine \<times> world" where
  "init e ttl w = snd (initialize_model e False (new_engine ttl) w)"

definition force_refresh :: "env \<Rightarrow> engine \<Rightarrow> world \<Rightarrow> bool \<times> engine \<times> world" where
  "force_refresh e s w = initialize_model e True s w"


subsection \<open>Materialising a result\<close>

text \<open>
  \<open>_safe_get_value(row, "images", [])\<close>: \<open>pd.isna\<close> of a list is an array, whose truth
  value raises when it has two or more elements; \<open>_safe_get_value\<close> catches that and
  returns the default, the empty list. A missing value gives the default as well.
\<close>

definition safe_get_images :: "row \<Rightarrow> string list" where
  "safe_get_images r =
     (case images r of None \<Rightarrow> [] | Some l \<Rightarrow> if length l = 1 then l else [])"

text \<open>The fields that \<open>_process_recommendation_row\<close> passes to \<open>RecommendationResponse\<close>.\<close>

definition response_fields :: "env \<Rightarrow> row \<Rightarrow> real \<Rightarrow> response" where
  "response_fields e r score =
     \<lparr>rec_id = id_col r,
      rec_inovasi = namaInovasi r,
      rec_kategori = kategori r,
      rec_deskripsi = deskripsi r,
      rec_namaInnovator = namaInnovator r,
      rec_images = safe_get_images r,
      rec_tahunDibuat = tahunDibuat r,
      similarity_score = np_round e score\<rparr>"

definition process_recommendation_row :: "env \<Rightarrow> row \<Rightarrow> real \<Rightarrow> response option" where
  "process_recommendation_row e r score =
     (let rec = response_fields e r score
      in if validate_response e rec then Some rec else None)"

text \<open>
  The two loops over \<open>sim_scores\<close>. \<open>self.df.iloc[i]\<close> raises for a row that does not
  exist, which ends the whole call in the outer \<open>except\<close> (\<open>None\<close> here). In the parallel
  loop a task that misses its timeout is skipped.
\<close>

fun process_serial :: "env \<Rightarrow> row list \<Rightarrow> (nat \<times> real) list \<Rightarrow> response list option" where
  "process_serial e d [] = Some []"
| "process_serial e d ((i, score) # rest) =
     (if length d \<le> i then None
      else case process_serial e d rest of
             None \<Rightarrow> None
           | Some recs \<Rightarrow>
              (case process_recommendation_row e (d ! i) score of
                 None \<Rightarrow> Some recs
               | Some rec \<Rightarrow> Some (rec # recs)))"

fun process_parallel :: "env \<Rightarrow> row list \<Rightarrow> nat \<Rightarrow> (nat \<times> real) list \<Rightarrow> response list option" where
  "process_parallel e d k [] = Some []"
| "process_parallel e d k ((i, score) # rest) =
     (if length d \<le> i then None
      else case process_parallel e d (Suc k) rest of
             None \<Rightarrow> None
           | Some recs \<Rightarrow>
              (if future_fails e k then Some recs
               else case process_recommendation_row e (d ! i) score of
                      None \<Rightarrow> Some recs
                    | Some rec \<Rightarrow> Some (rec # recs)))"

subsection \<open>Recommendations\<close>

text \<open>\<open>matching_rows.index[0]\<close>: the position of the first row with the given id.\<close>

fun first_index :: "row list \<Rightarrow> string \<Rightarrow> nat option" where
  "first_index [] innovation_id = None"
| "first_index (r # rs) innovation_id =
     (if id_col r = innovation_id then Some 0
      else map_option Suc (first_index rs innovation_id))"

text \<open>Filter by the minimum, sort by score, drop the first and keep \<open>top_n\<close>.\<close>

definition select_scores :: "real list \<Rightarrow> int \<Rightarrow> real \<Rightarrow> (nat \<times> real) list" where
  "select_scores sim_row top_n min_similarity =
     (let sim_scores = zip [0..<length sim_row] sim_row;
          sim_scores = filter (\<lambda>(i, score). score \<ge> min_similarity) sim_scores;
          sim_scores = sorted_by_score_desc sim_scores
      in slice sim_scores 1 (top_n + 1))"

text \<open>The \<open>try\<close> block of \<open>get_recommendations\<close>; every exception gives the empty list.\<close>

definition recommend_from :: "env \<Rightarrow> engine \<Rightarrow> string \<Rightarrow> int \<Rightarrow> real \<Rightarrow> response list" where
  "recommend_from e s innovation_id top_n min_similarity =
     (case df s of
        None \<Rightarrow> []
      | Some d \<Rightarrow>
         (case first_index d innovation_id of
            None \<Rightarrow> []
          | Some idx \<Rightarrow>
             (case cosine_sim s of
                None \<Rightarrow> []
              | Some sim \<Rightarrow>
                 (if length sim \<le> idx then []
                  else let sim_scores = select_scores (sim ! idx) top_n min_similarity;
                           recommendations =
                             (if length sim_scores > 10 then process_parallel e d 0 sim_scores
                              else process_serial e d sim_scores)
                       in (case recommendations of None \<Rightarrow> [] | Some recs \<Rightarrow> recs)))))"

definition get_recommendations ::
  "env \<Rightarrow> string \<Rightarrow> int \<Rightarrow> real \<Rightarrow> engine \<Rightarrow> world \<Rightarrow> response list \<times> engine \<times> world" where
  "get_recommendations e innovation_id top_n min_similarity s w =
     (if innovation_id = [] \<or> strip innovation_id = [] then ([], s, w)
      else let (ok, s, w) = (if \<not> is_initialized s then initialize_model e False s w else (True, s, w))
           in if \<not> ok then ([], s, w)
              else let (current_time, w) = time_time w;
                       (ok, s, w) = (if current_time - last_update s > of_int (cache_ttl s)
                                     then initialize_model e False s w else (True, s, w))
                   in if \<not> ok then ([], s, w)
                      else (recommend_from e s innovation_id top_n min_similarity, s, w))"

subsection \<open>Statistics\<close>

datatype stat = Text string | Count nat | Number real | Shape "(nat \<times> nat) option"

definition matrix_shape :: "real list list \<Rightarrow> nat \<times> nat" where
  "matrix_shape m = (length m, case m of [] \<Rightarrow> 0 | r # _ \<Rightarrow> length r)"

definition get_model_stats :: "engine \<Rightarrow> (string \<times> stat) list" where
  "get_model_stats s =
     (if \<not> is_initialized s then [(''status'', Text ''not_initialized'')]
      else [(''status'', Text ''initialized''),
            (''total_innovations'', Count (case df s of None \<Rightarrow> 0 | Some d \<Rightarrow> length d)),
            (''last_update'', Number (last_update s)),
            (''cache_ttl'', Number (of_int (cache_ttl s))),
            (''tfidf_features'', Count (case tfidf s of None \<Rightarrow> 0 | Some tf \<Rightarrow> n_features tf)),
            (''similarity_matrix_shape'',
               Shape (case cosine_sim s of None \<Rightarrow> None | Some m \<Rightarrow> Some (matrix_shape m)))])"

subsection \<open>Search\<close>

text \<open>The loop over \<open>top_indices\<close>; an index outside the data raises (\<open>None\<close>).\<close>

fun search_results :: "env \<Rightarrow> row list \<Rightarrow> real list \<Rightarrow> nat list \<Rightarrow> response list option" where
  "search_results e d similarities [] = Some []"
| "search_results e d similarities (idx # rest) =
     (if length similarities \<le> idx then None
      else if similarities ! idx > 0.01
      then (if length d \<le> idx then None
            else case search_results e d similarities rest of
                   None \<Rightarrow> None
                 | Some recs \<Rightarrow>
                    (case process_recommendation_row e (d ! idx) (similarities ! idx) of
                       None \<Rightarrow> Some recs
                     | Some rec \<Rightarrow> Some (rec # recs)))
      else search_results e d similarities rest)"

text \<open>What \<open>search_innovations\<close> computes from the attributes it reads.\<close>

definition search_snapshot :: "env \<Rightarrow> string \<Rightarrow> int \<Rightarrow> engine \<Rightarrow> response list" where
  "search_snapshot e query top_n s =
     (if \<not> is_initialized s \<or> strip query = [] then []
      else let processed_query = preprocess_text e query None
           in if processed_query = [] then []
              else case tfidf s of
                     None \<Rightarrow> []
                   | Some tf \<Rightarrow>
                      (case transform tf [processed_query] of
                         None \<Rightarrow> []
                       | Some query_vector \<Rightarrow>
                          (case df s of
                             None \<Rightarrow> []
                           | Some d \<Rightarrow>
                              (case transform tf (map processed_text d) of
                                 None \<Rightarrow> []
                               | Some doc_vectors \<Rightarrow>
                                  (case sk_cosine_similarity e query_vector doc_vectors of
                                     None \<Rightarrow> []
                                   | Some m \<Rightarrow>
                                      (let similarities = concat m;
                                           top_indices = rev (slice_from (argsort e similarities) (- top_n))
                                       in (case search_results e d similarities top_indices of
                                             None \<Rightarrow> []
                                           | Some results \<Rightarrow> results)))))))"


text \<open>
  \<open>search_innovations\<close> calls neither \<open>initialize_model\<close> nor \<open>time.time()\<close>, does not fetch
  and assigns no attribute: the engine and the world are returned as they were.
\<close>

definition search_innovations ::
  "env \<Rightarrow> string \<Rightarrow> int \<Rightarrow> engine \<Rightarrow> world \<Rightarrow> response list \<times> engine \<times> world" where
  "search_innovations e query top_n s w = (search_snapshot e query top_n s, s, w)"

section \<open>Concurrent callers of \<open>initialize_model\<close>\<close>

text \<open>
  Where a thread stands in \<open>initialize_model\<close>: about to call it (with its
  \<open>force_refresh\<close>); past the freshness test with the \<open>current_time\<close> it read, at
  \<open>with self.lock\<close>; inside the region; at the end of the region with the value to
  return; returned.
\<close>

datatype pc = Start bool | Waiting real | Holding real | Releasing bool | Done bool

record system =
  eng :: engine
  wld :: world
  lock_held :: bool
  threads :: "pc list"

text \<open>One step of thread \<open>i\<close>; \<open>None\<close> when it cannot move (it waits for the lock or has returned).\<close>

definition thread_step :: "env \<Rightarrow> nat \<Rightarrow> system \<Rightarrow> system option" where
  "thread_step e i c =
     (if length (threads c) \<le> i then None
      else case threads c ! i of
             Start force \<Rightarrow>
               (let (current_time, w) = time_time (wld c)
                in if \<not> force \<and> is_initialized (eng c)
                      \<and> current_time - last_update (eng c) < of_int (cache_ttl (eng c))
                   then Some (c\<lparr>wld := w, threads := (threads c)[i := Done True]\<rparr>)
                   else Some (c\<lparr>wld := w, threads := (threads c)[i := Waiting current_time]\<rparr>))
           | Waiting current_time \<Rightarrow>
               (if lock_held c then None
                else Some (c\<lparr>lock_held := True, threads := (threads c)[i := Holding current_time]\<rparr>))
           | Holding current_time \<Rightarrow>
               (let (ok, s, w) = rebuild e current_time (eng c) (wld c)
                in Some (c\<lparr>eng := s, wld := w, threads := (threads c)[i := Releasing ok]\<rparr>))
           | Releasing ok \<Rightarrow>
               Some (c\<lparr>lock_held := False, threads := (threads c)[i := Done ok]\<rparr>)
           | Done ok \<Rightarrow> None)"

text \<open>A schedule names the thread that moves at each step.\<close>

fun run :: "env \<Rightarrow> nat list \<Rightarrow> system \<Rightarrow> system option" where
  "run e [] c = Some c"
| "run e (i # schedule) c =
     (case thread_step e i c of None \<Rightarrow> None | Some c' \<Rightarrow> run e schedule c')"

definition in_region :: "pc \<Rightarrow> bool" where
  "in_region p = (case p of Holding t \<Rightarrow> True | Releasing ok \<Rightarrow> True | _ \<Rightarrow> False)"

definition is_start :: "pc \<Rightarrow> bool" where
  "is_start p = (case p of Start force \<Rightarrow> True | _ \<Rightarrow> False)"

definition initial :: "system \<Rightarrow> bool" where
  "initial c = (\<not> lock_held c \<and> list_all is_start (threads c))"


section \<open>The claims in the words of the specification\<close>

text \<open>
  Stemming as the specification describes it: a token on which the stemmer fails is
  passed through, the others are stemmed.
\<close>

definition stem_each :: "(string \<Rightarrow> string option) \<Rightarrow> string list \<Rightarrow> string list" where
  "stem_each st tokens = map (\<lambda>t. case st t of None \<Rightarrow> t | Some r \<Rightarrow> r) tokens"

text \<open>The tokens that reach the stemming step of \<open>preprocess_text\<close> (its steps 1 to 7).\<close>

definition tokens_before_stemming :: "env \<Rightarrow> string \<Rightarrow> string set option \<Rightarrow> string list" where
  "tokens_before_stemming e text stop_words =
     (let text = strip (sub_spaces False (sub_punctuation (sub_digits (sub_backslashes
                   (sub_escape_u (sub_escape_tn (lower (strip text))))))));
          tokens = filter (\<lambda>token. strip token \<noteq> [] \<and> length token > 1) (split text);
          stop_words = (case stop_words of None \<Rightarrow> cached_stopwords e | Some sw \<Rightarrow> sw)
      in filter (\<lambda>word. word \<notin> stop_words) tokens)"

text \<open>
  Text that is already normalized: tokens of two or more characters, each a word
  character that is no digit and that \<open>lower\<close> leaves alone, none of them a stopword.
\<close>

definition normal_token :: "string set \<Rightarrow> string \<Rightarrow> bool" where
  "normal_token stop_words t =
     (length t > 1 \<and> list_all (\<lambda>c. is_word c \<and> \<not> is_digit c \<and> lower_char c = c) t
      \<and> t \<notin> stop_words)"

text \<open>The normalized texts of a fetched catalog (steps 2 to 4 of the rebuild).\<close>

definition catalog_texts :: "env \<Rightarrow> document list \<Rightarrow> string list" where
  "catalog_texts e data =
     map (\<lambda>text. preprocess_text e text (Some (cached_stopwords e)))
       (map combined_features (create_combined_features (validate_and_clean_data data)))"

section \<open>Example data\<close>

text \<open>
  Stand-ins for the two numeric library functions, in exact arithmetic, for the example
  data only: rounding to four decimal places (half to even), and the cosine of the rows
  of two matrices (rows normalised to Euclidean length 1, a row of norm 0 staying as it
  is, then dot products). On the scores and vectors of the examples, whose entries are 0,
  1, 0.2, 0.50001 and 0.50003, the floating-point functions return the same values.
\<close>

definition round_half_even :: "real \<Rightarrow> int" where
  "round_half_even x =
     (let f = \<lfloor>x\<rfloor>; d = x - of_int f
      in if d < 1 / 2 then f else if 1 / 2 < d then f + 1 else if even f then f else f + 1)"

definition exact_round4 :: "real \<Rightarrow> real" where
  "exact_round4 x = of_int (round_half_even (x * 10000)) / 10000"

definition dot :: "real list \<Rightarrow> real list \<Rightarrow> real" where
  "dot u v = sum_list (map (\<lambda>(a, b). a * b) (zip u v))"

definition row_norm :: "real list \<Rightarrow> real" where
  "row_norm v = sqrt (dot v v)"

definition normalize_row :: "real list \<Rightarrow> real list" where
  "normalize_row v = (let n = row_norm v in if n = 0 then v else map (\<lambda>a. a / n) v)"

definition exact_cosine :: "real list \<Rightarrow> real list \<Rightarrow> real" where
  "exact_cosine u v = dot (normalize_row u) (normalize_row v)"

definition exact_cosine_similarity :: "real list list \<Rightarrow> real list list \<Rightarrow> real list list" where
  "exact_cosine_similarity X Y = map (\<lambda>x. map (\<lambda>y. exact_cosine x y) Y) X"

text \<open>
  A stemmer that reduces two inflected words to their roots, fails on the token \<open>xx\<close>
  and leaves every other token alone.
\<close>

definition demo_stemmer :: "string \<Rightarrow> string option" where
  "demo_stemmer t =
     (if t = ''menjauh'' then Some ''jauh''
      else if t = ''berlari'' then Some ''lari''
      else if t = ''xx'' then None
      else Some t)"

text \<open>
  The vector space of the example catalog below: with \<open>min_df = 2\<close> the only term kept is
  \<open>aplikasi\<close>, so a text without it has the zero vector.
\<close>

definition demo_vector :: "string \<Rightarrow> real list" where
  "demo_vector t = [if t = ''aplikasi'' then 1 else 0]"

definition demo_vectorizer :: vectorizer where
  "demo_vectorizer = \<lparr>transform = (\<lambda>texts. Some (map demo_vector texts)), n_features = 1\<rparr>"

definition demo_env :: env where
  "demo_env =
     \<lparr>cached_stopwords = {''jauh'', ''yang'', ''adalah''},
      get_stemmer = Some demo_stemmer,
      fit_transform = (\<lambda>texts. Some (demo_vectorizer, map demo_vector texts)),
      sk_cosine_similarity = (\<lambda>X Y. Some (exact_cosine_similarity X Y)),
      argsort = (\<lambda>xs. sort_key (\<lambda>i. xs ! i) [0..<length xs]),
      np_round = exact_round4,
      validate_response = (\<lambda>rec. True),
      future_fails = (\<lambda>k. False)\<rparr>"

definition demo_document :: "string \<Rightarrow> string \<Rightarrow> document" where
  "demo_document i text =
     \<lparr>doc_id = i, raw_deskripsi = Some text, raw_kategori = None, raw_namaInovasi = None,
      raw_namaInnovator = None, raw_images = None, raw_tahunDibuat = None\<rparr>"

definition demo_catalog :: "document list" where
  "demo_catalog =
     [demo_document ''A'' ''aplikasi'', demo_document ''B'' ''aplikasi'',
      demo_document ''C'' ''mesin'']"

definition demo_world :: world where
  "demo_world = \<lparr>clock = (\<lambda>k. 5000 + real k), reads = 0, store = (\<lambda>k. demo_catalog), fetches = 0\<rparr>"

text \<open>The snapshot that a rebuild at time 5000 makes of the example catalog.\<close>

definition demo_row :: "string \<Rightarrow> string \<Rightarrow> row" where
  "demo_row i text =
     \<lparr>id_col = i, deskripsi = text, kategori = [], namaInovasi = [], namaInnovator = [],
      images = None, tahunDibuat = None, combined_features = text @ '' '',
      processed_text = text\<rparr>"

definition demo_engine :: engine where
  "demo_engine =
     \<lparr>df = Some [demo_row ''A'' ''aplikasi'', demo_row ''B'' ''aplikasi'', demo_row ''C'' ''mesin''],
      tfidf = Some demo_vectorizer,
      cosine_sim = Some [[1, 1, 0], [1, 1, 0], [0, 0, 0]],
      cache_ttl = 3600, last_update = 5000, is_initialized = True\<rparr>"

text \<open>
  The example snapshot with other similarities: \<open>B\<close> and \<open>C\<close> are nearly equally similar
  to \<open>A\<close>, and both scores round to 0.5.
\<close>

definition tie_engine :: engine where
  "tie_engine =
     demo_engine\<lparr>cosine_sim :=
       Some [[1, 0.50001, 0.50003], [0.50001, 1, 0.2], [0.50003, 0.2, 1]]\<rparr>"

text \<open>A store that holds a single record.\<close>

definition single_world :: world where
  "single_world =
     \<lparr>clock = (\<lambda>k. 5000 + real k), reads = 0, store = (\<lambda>k. [demo_document ''A'' ''aplikasi'']),
      fetches = 0\<rparr>"


text \<open>Two threads about to call \<open>initialize_model()\<close> on an engine that is not initialized.\<close>

definition demo_system :: system where
  "demo_system =
     \<lparr>eng = new_engine 3600, wld = demo_world, lock_held = False,
      threads = [Start False, Start False]\<rparr>"

section \<open>Facts about the rebuild\<close>

lemmas text_defs = preprocess_text_def strip_def lower_def lower_char_def is_space_def sub_backslashes_def
  sub_digits_def sub_punctuation_def split_def is_word_def is_digit_def is_hex_def try_stemming_def

lemma map_nth_filter: "map (\<lambda>i. xs ! i) (filter (\<lambda>i. P (xs ! i)) [0..<length xs]) = filter P xs"
proof -
  have "filter P xs = filter P (map (\<lambda>i. xs ! i) [0..<length xs])"
    by (simp add: map_nth)
  also have "\<dots> = map (\<lambda>i. xs ! i) (filter (\<lambda>i. P (xs ! i)) [0..<length xs])"
    by (simp add: filter_map comp_def)
  finally show ?thesis by simp
qed

lemma batch_texts:
  "get_stemmer e = Some st \<Longrightarrow>
   batch_preprocess_texts e (map combined_features (create_combined_features (validate_and_clean_data data)))
     = Inr (catalog_texts e data)"
  by (simp add: batch_preprocess_texts_def batch_preprocess_text_def catalog_texts_def)

lemma batch_raises:
  "get_stemmer e = None \<Longrightarrow> batch_preprocess_texts e texts = Inl StemmerUnavailable"
  by (simp add: batch_preprocess_texts_def batch_preprocess_text_def)

lemma build_tfidf_valid:
  "build_tfidf_matrix e (filter (\<lambda>t. strip t \<noteq> []) texts) =
     (if length (filter (\<lambda>t. strip t \<noteq> []) texts) < 2 then None
      else fit_transform e (filter (\<lambda>t. strip t \<noteq> []) texts))"
  by (simp add: build_tfidf_matrix_def)

text \<open>The region under the lock, step by step on the texts of the fetched catalog.\<close>

lemma rebuild_flat:
  "rebuild e t s w =
     (let data = store w (fetches w);
          w1 = w\<lparr>fetches := fetches w + 1\<rparr>;
          texts = catalog_texts e data;
          valid = filter (\<lambda>x. strip x \<noteq> []) texts
      in if data = [] \<or> validate_and_clean_data data = [] \<or> get_stemmer e = None \<or> length valid < 2
         then (False, s, w1)
         else case fit_transform e valid of
                None \<Rightarrow> (False, s, w1)
              | Some (tf, X) \<Rightarrow>
                 (case sk_cosine_similarity e X X of
                    None \<Rightarrow> (False, s, w1)
                  | Some sim \<Rightarrow>
                     (True,
                      s\<lparr>df := Some (map (\<lambda>i. (create_combined_features (validate_and_clean_data data) ! i)
                                              \<lparr>processed_text := texts ! i\<rparr>)
                                       (filter (\<lambda>i. strip (texts ! i) \<noteq> []) [0..<length texts])),
                        tfidf := Some tf, cosine_sim := Some sim, last_update := t, is_initialized := True\<rparr>,
                      w1)))"
proof (cases "get_stemmer e")
  case None
  then show ?thesis
    by (simp add: rebuild_def fetch_innovations_from_firebase_def batch_raises Let_def create_combined_features_def)
next
  case (Some st)
  have len: "length (filter (\<lambda>i. strip (xs ! i) \<noteq> []) [0..<length xs]) = length (filter (\<lambda>x. strip x \<noteq> []) xs)" for xs :: "string list"
    using map_nth_filter[of xs "\<lambda>x. strip x \<noteq> []"] by (metis length_map)
  show ?thesis
    unfolding rebuild_def fetch_innovations_from_firebase_def
    by (auto simp add: Let_def batch_texts[OF Some] Some map_nth_filter[where P = "\<lambda>x. strip x \<noteq> []"] len build_tfidf_valid
        calculate_similarity_matrix_def
        split: option.splits prod.splits)
qed

lemma rebuild_false_same: "rebuild e t s w = (ok, s', w') \<Longrightarrow> \<not> ok \<Longrightarrow> s' = s"
  unfolding rebuild_def Let_def
  by (auto split: prod.splits if_splits sum.splits option.splits)

lemma rebuild_fetches: "rebuild e t s w = (ok, s', w') \<Longrightarrow> w' = w\<lparr>fetches := fetches w + 1\<rparr>"
  unfolding rebuild_def Let_def fetch_innovations_from_firebase_def
  by (auto split: prod.splits if_splits sum.splits option.splits)

lemma init_false_same: "initialize_model e f s w = (ok, s', w') \<Longrightarrow> \<not> ok \<Longrightarrow> s' = s"
  unfolding initialize_model_def Let_def
  by (auto split: prod.splits if_splits dest: rebuild_false_same)

text \<open>
  Claim C1. Whenever \<open>initialize_model\<close> (and so \<open>force_refresh\<close>) returns failure, the
  attributes of the engine are exactly those before the call; and when the call does
  rebuild, each failing step makes it return failure: an empty fetch, no valid row after
  cleaning, an exception (the stemmer cannot be made), fewer than two valid processed
  texts, a failing TF-IDF build, a failing similarity computation.
\<close>

theorem failed_rebuild_keeps_snapshot:
  assumes run: "initialize_model e force s w = (ok, s', w')"
  shows "(\<not> ok \<longrightarrow> s' = s) \<and>
         ((force \<or> \<not> is_initialized s \<or> \<not> clock w (reads w) - last_update s < of_int (cache_ttl s)) \<and>
          (store w (fetches w) = [] \<or> validate_and_clean_data (store w (fetches w)) = [] \<or>
           get_stemmer e = None \<or>
           length (filter (\<lambda>t. strip t \<noteq> []) (catalog_texts e (store w (fetches w)))) < 2 \<or>
           fit_transform e (filter (\<lambda>t. strip t \<noteq> []) (catalog_texts e (store w (fetches w)))) = None \<or>
           (\<exists>tf X. fit_transform e (filter (\<lambda>t. strip t \<noteq> []) (catalog_texts e (store w (fetches w))))
                      = Some (tf, X) \<and> sk_cosine_similarity e X X = None))
          \<longrightarrow> \<not> ok \<and> s' = s)"
proof -
  have keep: "\<not> ok \<longrightarrow> s' = s"
    using init_false_same[OF run] by blast
  have fail: "\<not> ok" if slow: "force \<or> \<not> is_initialized s \<or> \<not> clock w (reads w) - last_update s < of_int (cache_ttl s)"
    and bad: "store w (fetches w) = [] \<or> validate_and_clean_data (store w (fetches w)) = [] \<or>
           get_stemmer e = None \<or>
           length (filter (\<lambda>t. strip t \<noteq> []) (catalog_texts e (store w (fetches w)))) < 2 \<or>
           fit_transform e (filter (\<lambda>t. strip t \<noteq> []) (catalog_texts e (store w (fetches w)))) = None \<or>
           (\<exists>tf X. fit_transform e (filter (\<lambda>t. strip t \<noteq> []) (catalog_texts e (store w (fetches w))))
                      = Some (tf, X) \<and> sk_cosine_similarity e X X = None)"
  proof -
    from slow run have r: "rebuild e (clock w (reads w)) s (w\<lparr>reads := reads w + 1\<rparr>) = (ok, s', w')"
      by (auto simp: initialize_model_def time_time_def Let_def split: if_splits)
    from bad r show ?thesis
      by (auto simp: rebuild_flat Let_def split: if_splits option.splits)
  qed
  from keep fail show ?thesis by blast
qed


lemma demo_texts:
  "preprocess_text demo_env ''aplikasi '' (Some (cached_stopwords demo_env)) = ''aplikasi''"
  "preprocess_text demo_env ''mesin '' (Some (cached_stopwords demo_env)) = ''mesin''"
  by (simp_all add: text_defs demo_env_def demo_stemmer_def Let_def)

lemma single_texts:
  "catalog_texts demo_env (store single_world k) = [''aplikasi'']"
  by (simp add: catalog_texts_def single_world_def demo_document_def validate_and_clean_data_def
      create_combined_features_def or_empty_def demo_texts strip_def is_space_def)

lemma demo_catalog_texts:
  "catalog_texts demo_env demo_catalog = [''aplikasi'', ''aplikasi'', ''mesin'']"
  by (simp add: catalog_texts_def demo_catalog_def demo_document_def validate_and_clean_data_def
      create_combined_features_def or_empty_def demo_texts strip_def is_space_def)

lemma single_initialize:
  "initialize_model demo_env True s single_world = (False, s, single_world\<lparr>reads := 1, fetches := 1\<rparr>)"
proof -
  have f: "fetches (single_world\<lparr>reads := 1\<rparr>) = 0" "reads single_world = 0" "fetches single_world = 0"
    "store (single_world\<lparr>reads := 1\<rparr>) = store single_world"
    by (simp_all add: single_world_def)
  show ?thesis
    by (simp add: initialize_model_def time_time_def rebuild_flat Let_def f single_texts strip_def is_space_def)
qed

text \<open>
  The theorem at a forced refresh of a built engine over a store that holds one record.
\<close>

theorem failed_rebuild_keeps_snapshot_witness:
  "initialize_model demo_env True demo_engine single_world
     = (False, demo_engine, single_world\<lparr>reads := 1, fetches := 1\<rparr>)
   \<and> length (filter (\<lambda>t. strip t \<noteq> [])
         (catalog_texts demo_env (store single_world (fetches single_world)))) < 2
   \<and> fst (snd (initialize_model demo_env True demo_engine single_world)) = demo_engine"
proof -
  have run: "initialize_model demo_env True demo_engine single_world
     = (False, demo_engine, single_world\<lparr>reads := 1, fetches := 1\<rparr>)"
    by (rule single_initialize)
  have few: "length (filter (\<lambda>t. strip t \<noteq> [])
         (catalog_texts demo_env (store single_world (fetches single_world)))) < 2"
    by (simp add: single_texts)
  from failed_rebuild_keeps_snapshot[OF run] few run show ?thesis by simp
qed

text \<open>
  Claim C10. An engine is not initialized when it is new and stays so through every
  rebuild that fails; for such an engine \<open>get_model_stats\<close> returns the status field alone,
  with the value \<open>not_initialized\<close>, and none of the other fields.
\<close>

theorem stats_of_unbuilt_model:
  assumes "\<not> is_initialized s"
  shows "get_model_stats s = [(''status'', Text ''not_initialized'')]
       \<and> map fst (get_model_stats s) = [''status'']
       \<and> \<not> is_initialized (new_engine ttl)
       \<and> (\<not> fst (initialize_model e force s w) \<longrightarrow>
            get_model_stats (fst (snd (initialize_model e force s w)))
              = [(''status'', Text ''not_initialized'')])"
proof -
  have kept: "fst (snd (initialize_model e force s w)) = s" if "\<not> fst (initialize_model e force s w)"
    using that init_false_same[of e force s w] by (cases "initialize_model e force s w") auto
  from assms kept show ?thesis
    by (auto simp: get_model_stats_def new_engine_def)
qed

text \<open>
  The theorem at the attributes the constructor starts from, with a store that holds a
  single record.
\<close>

theorem stats_of_unbuilt_model_witness:
  "\<not> is_initialized (new_engine 3600)
   \<and> \<not> fst (initialize_model demo_env True (new_engine 3600) single_world)
   \<and> get_model_stats (new_engine 3600) = [(''status'', Text ''not_initialized'')]
   \<and> get_model_stats (fst (snd (initialize_model demo_env True (new_engine 3600) single_world)))
       = [(''status'', Text ''not_initialized'')]"
proof -
  have h: "\<not> is_initialized (new_engine 3600)" by (simp add: new_engine_def)
  have f: "\<not> fst (initialize_model demo_env True (new_engine 3600) single_world)"
    by (simp add: single_initialize)
  from stats_of_unbuilt_model[OF h, of 3600 demo_env True single_world] h f show ?thesis by simp
qed

text \<open>
  Claim C5. With no build so far and a catalog that yields fewer than two non-blank
  normalized texts, the build fails and leaves the engine as it is, the vector-space
  builder returns nothing, \<open>get_recommendations\<close> and \<open>search_innovations\<close> return the
  empty list, and the statistics say \<open>not_initialized\<close>.
\<close>

theorem insufficient_data:
  assumes uninit: "\<not> is_initialized s"
    and few: "length (filter (\<lambda>t. strip t \<noteq> []) (catalog_texts e (store w (fetches w)))) < 2"
  shows "initialize_model e force s w = (False, s, w\<lparr>reads := reads w + 1, fetches := fetches w + 1\<rparr>)
       \<and> build_tfidf_matrix e (filter (\<lambda>t. strip t \<noteq> []) (catalog_texts e (store w (fetches w)))) = None
       \<and> fst (get_recommendations e innovation_id top_n min_similarity s w) = []
       \<and> fst (snd (get_recommendations e innovation_id top_n min_similarity s w)) = s
       \<and> search_innovations e query n s w = ([], s, w)
       \<and> get_model_stats s = [(''status'', Text ''not_initialized'')]"
proof -
  have init: "initialize_model e f s w = (False, s, w\<lparr>reads := reads w + 1, fetches := fetches w + 1\<rparr>)" for f
    using uninit few by (simp add: initialize_model_def time_time_def rebuild_flat Let_def)
  have build: "build_tfidf_matrix e (filter (\<lambda>t. strip t \<noteq> []) (catalog_texts e (store w (fetches w)))) = None"
    using few by (simp add: build_tfidf_valid)
  have rec: "fst (get_recommendations e innovation_id top_n min_similarity s w) = []
       \<and> fst (snd (get_recommendations e innovation_id top_n min_similarity s w)) = s"
    using uninit by (simp add: get_recommendations_def init)
  have search: "search_innovations e query n s w = ([], s, w)"
    using uninit by (simp add: search_innovations_def search_snapshot_def)
  have stats: "get_model_stats s = [(''status'', Text ''not_initialized'')]"
    using uninit by (simp add: get_model_stats_def)
  from init build rec search stats show ?thesis by blast
qed

text \<open>
  The theorem at a store that holds one record.
\<close>

theorem insufficient_data_witness:
  "\<not> is_initialized (new_engine 3600)
   \<and> length (filter (\<lambda>t. strip t \<noteq> [])
        (catalog_texts demo_env (store single_world (fetches single_world)))) < 2
   \<and> initialize_model demo_env False (new_engine 3600) single_world
        = (False, new_engine 3600, single_world\<lparr>reads := 1, fetches := 1\<rparr>)
   \<and> fst (get_recommendations demo_env ''A'' 5 (1 / 100) (new_engine 3600) single_world) = []
   \<and> fst (snd (get_recommendations demo_env ''A'' 5 (1 / 100) (new_engine 3600) single_world)) = new_engine 3600
   \<and> search_innovations demo_env ''aplikasi'' 10 (new_engine 3600) single_world
        = ([], new_engine 3600, single_world)
   \<and> get_model_stats (new_engine 3600) = [(''status'', Text ''not_initialized'')]"
proof -
  have h1: "\<not> is_initialized (new_engine 3600)" by (simp add: new_engine_def)
  have h2: "length (filter (\<lambda>t. strip t \<noteq> [])
        (catalog_texts demo_env (store single_world (fetches single_world)))) < 2"
    by (simp add: single_texts)
  have r: "reads single_world = 0" "fetches single_world = 0" by (simp_all add: single_world_def)
  from insufficient_data[OF h1 h2, of False "''A''" 5 "1 / 100" "''aplikasi''" 10] h1 h2
  show ?thesis by (auto simp: r)
qed



section \<open>The query record among its recommendations\<close>

lemma demo_rebuild:
  assumes "store w = (\<lambda>k. demo_catalog)"
  shows "rebuild demo_env t s w =
     (True,
      s\<lparr>df := df demo_engine, tfidf := tfidf demo_engine, cosine_sim := cosine_sim demo_engine,
        last_update := t, is_initialized := True\<rparr>,
      w\<lparr>fetches := fetches w + 1\<rparr>)"
proof -
  have stem: "get_stemmer demo_env = Some demo_stemmer"
    and ft: "fit_transform demo_env = (\<lambda>texts. Some (demo_vectorizer, map demo_vector texts))"
    and cs: "sk_cosine_similarity demo_env = (\<lambda>X Y. Some (exact_cosine_similarity X Y))"
    by (simp_all add: demo_env_def)
  have up: "[0..<3] = [0, 1, 2]" by (simp add: upt_rec)
  have cos: "exact_cosine_similarity [[1], [1], [0]] [[1], [1], [0]] = [[1, 1, 0], [1, 1, 0], [0, 0, 0]]"
    by (simp add: exact_cosine_similarity_def exact_cosine_def normalize_row_def row_norm_def dot_def)
  have rows: "create_combined_features (validate_and_clean_data demo_catalog) =
      [(demo_row ''A'' ''aplikasi'')\<lparr>processed_text := []\<rparr>,
       (demo_row ''B'' ''aplikasi'')\<lparr>processed_text := []\<rparr>,
       (demo_row ''C'' ''mesin'')\<lparr>processed_text := []\<rparr>]"
    by (simp add: demo_catalog_def demo_document_def validate_and_clean_data_def create_combined_features_def
        or_empty_def strip_def is_space_def demo_row_def)
  have ne: "demo_catalog \<noteq> []" "validate_and_clean_data demo_catalog \<noteq> []"
    by (simp_all add: demo_catalog_def validate_and_clean_data_def demo_document_def strip_def is_space_def)
  show ?thesis
    by (simp add: rebuild_flat assms demo_catalog_texts Let_def strip_def is_space_def stem ft cs
        demo_vector_def cos up rows ne demo_engine_def demo_row_def)
qed

lemma demo_init: "init demo_env 3600 demo_world = (demo_engine, demo_world\<lparr>reads := 1, fetches := 1\<rparr>)"
proof -
  have w: "store (demo_world\<lparr>reads := Suc 0\<rparr>) = (\<lambda>k. demo_catalog)" "reads demo_world = 0"
     "fetches demo_world = 0" "clock demo_world 0 = 5000"
    by (simp_all add: demo_world_def)
  show ?thesis
    by (simp add: init_def initialize_model_def time_time_def Let_def new_engine_def demo_rebuild[OF w(1)] w)
       (simp add: demo_engine_def)
qed

text \<open>
  Claim C2 fails on the code. The example catalog has two records with the same text, so
  row \<open>B\<close> of the similarity matrix holds 1 for \<open>A\<close> and for \<open>B\<close>; the stable sort puts
  \<open>A\<close> first, the slice from position 1 drops \<open>A\<close>, and the query record \<open>B\<close> is returned
  as its own recommendation.
\<close>

theorem recommend_returns_query_record:
  "init demo_env 3600 demo_world = (demo_engine, demo_world\<lparr>reads := 1, fetches := 1\<rparr>)
   \<and> map rec_id (fst (get_recommendations demo_env ''B'' 5 (1 / 100) demo_engine
                        (demo_world\<lparr>reads := 1, fetches := 1\<rparr>))) = [''B'']"
proof -
  have up: "[0..<3] = [0, 1, 2]" by (simp add: upt_rec)
  have sel: "select_scores [1, 1, 0] 5 (1 / 100) = [(1, 1)]"
    by (simp add: select_scores_def up sorted_by_score_desc_def slice_def slice_bound_def Let_def)
  have v: "validate_response demo_env = (\<lambda>rec. True)" by (simp add: demo_env_def)
  have "map rec_id (fst (get_recommendations demo_env ''B'' 5 (1 / 100) demo_engine
                        (demo_world\<lparr>reads := 1, fetches := 1\<rparr>))) = [''B'']"
    by (simp add: get_recommendations_def strip_def is_space_def time_time_def demo_world_def Let_def
        recommend_from_def demo_engine_def demo_row_def sel process_recommendation_row_def
        response_fields_def v)
  with demo_init show ?thesis by simp
qed


section \<open>The stemming step of the normalizer\<close>

lemma try_stemming_Nil: "try_stemming e [] = []"
  by (simp add: try_stemming_def split: option.splits)

lemma preprocess_text_tokens:
  "preprocess_text e text sw =
     join_space (filter (\<lambda>token. token \<noteq> [] \<and> length token > 1)
       (try_stemming e (tokens_before_stemming e text sw)))"
proof (cases "text = [] \<or> strip text = []")
  case True
  have "strip ([] :: string) = []" "lower [] = []" "split [] = []"
    by (simp_all add: strip_def lower_def split_def)
  with True show ?thesis
    by (auto simp: preprocess_text_def tokens_before_stemming_def Let_def sub_backslashes_def
        sub_digits_def sub_punctuation_def try_stemming_Nil)
next
  case False
  then show ?thesis
    by (simp add: preprocess_text_def tokens_before_stemming_def Let_def try_stemming_Nil
        del: filter_filter)
qed

lemma stem_tokens_Some: "stem_tokens st ts = Some rs \<Longrightarrow> t \<in> set ts \<Longrightarrow> st t \<noteq> None"
  by (induction ts arbitrary: rs) (auto split: option.splits)

lemma stem_tokens_fails: "\<exists>t\<in>set ts. st t = None \<Longrightarrow> stem_tokens st ts = None"
  using stem_tokens_Some[of st ts] by (cases "stem_tokens st ts") auto

lemma stem_tokens_all: "\<forall>t\<in>set ts. st t \<noteq> None \<Longrightarrow> stem_tokens st ts = Some (stem_each st ts)"
  by (induction ts) (auto simp: stem_each_def split: option.splits)

text \<open>
  Claim C7 fails on the code: a stemmer that fails on one token leaves every token of the
  call unstemmed. In the example the stemmer reduces \<open>berlari\<close> to \<open>lari\<close> and fails on
  \<open>xx\<close>; the claim asks for \<open>lari xx\<close>, the code returns \<open>berlari xx\<close>.
\<close>

theorem stemmer_failure_counterexample:
  "get_stemmer demo_env = Some demo_stemmer
   \<and> tokens_before_stemming demo_env ''berlari xx'' None = [''berlari'', ''xx'']
   \<and> demo_stemmer ''berlari'' = Some ''lari'' \<and> demo_stemmer ''xx'' = None
   \<and> join_space (stem_each demo_stemmer [''berlari'', ''xx'']) = ''lari xx''
   \<and> preprocess_text demo_env ''berlari xx'' None = ''berlari xx''"
  by (simp add: text_defs tokens_before_stemming_def demo_env_def demo_stemmer_def stem_each_def Let_def)

text \<open>
  Claim C7 as amended: when the stemmer fails on any token that reaches the stemming
  step, every token of the call is passed through unstemmed; when it fails on none, every
  token is stemmed. Either way the call returns a string.
\<close>

theorem stemmer_failure_keeps_all_tokens:
  assumes "get_stemmer e = Some st"
  shows "((\<exists>t\<in>set (tokens_before_stemming e text sw). st t = None) \<longrightarrow>
           preprocess_text e text sw =
             join_space (filter (\<lambda>token. token \<noteq> [] \<and> length token > 1)
               (tokens_before_stemming e text sw)))
       \<and> ((\<forall>t\<in>set (tokens_before_stemming e text sw). st t \<noteq> None) \<longrightarrow>
           preprocess_text e text sw =
             join_space (filter (\<lambda>token. token \<noteq> [] \<and> length token > 1)
               (stem_each st (tokens_before_stemming e text sw))))"
  using assms
  by (simp add: preprocess_text_tokens try_stemming_def stem_tokens_fails stem_tokens_all)

text \<open>The theorem at the example, where the stemmer fails on the second token.\<close>

theorem stemmer_failure_keeps_all_tokens_witness:
  "get_stemmer demo_env = Some demo_stemmer
   \<and> demo_stemmer (tokens_before_stemming demo_env ''berlari xx'' None ! 1) = None
   \<and> preprocess_text demo_env ''berlari xx'' None = ''berlari xx''"
proof -
  have st: "get_stemmer demo_env = Some demo_stemmer" by (simp add: demo_env_def)
  have toks: "tokens_before_stemming demo_env ''berlari xx'' None = [''berlari'', ''xx'']"
    by (simp add: text_defs tokens_before_stemming_def demo_env_def Let_def)
  have fails: "demo_stemmer ''xx'' = None" by (simp add: demo_stemmer_def)
  from stemmer_failure_keeps_all_tokens[OF st, of "''berlari xx''" None] st toks fails
  show ?thesis by simp
qed


section \<open>Normalizing normalized text\<close>

lemma word_not_space: "is_word c \<Longrightarrow> \<not> is_space c"
  by (auto simp: is_word_def is_space_def Let_def)

lemma word_not_backslash: "is_word c \<Longrightarrow> c \<noteq> CHR 0x5C"
  by (auto simp: is_word_def Let_def)

lemma space_is_space: "is_space (CHR '' '')"
  by (simp add: is_space_def)

lemma space_plain: "lower_char (CHR '' '') = CHR '' ''" "\<not> is_digit (CHR '' '')" "CHR '' '' \<noteq> CHR 0x5C"
  by (simp_all add: lower_char_def is_digit_def)

lemma sub_escape_tn_id: "CHR 0x5C \<notin> set s \<Longrightarrow> sub_escape_tn s = s"
  by (induction s rule: sub_escape_tn.induct) auto

lemma sub_escape_u_id: "CHR 0x5C \<notin> set s \<Longrightarrow> sub_escape_u s = s"
  by (induction s rule: sub_escape_u.induct) auto

text \<open>Tokens without whitespace, joined by single spaces.\<close>

lemma sub_spaces_token_False:
  "\<forall>c\<in>set t. \<not> is_space c \<Longrightarrow> sub_spaces False (t @ rest) = t @ sub_spaces False rest"
  by (induction t) auto

lemma sub_spaces_token:
  "\<forall>c\<in>set t. \<not> is_space c \<Longrightarrow> t \<noteq> [] \<Longrightarrow> sub_spaces b (t @ rest) = t @ sub_spaces False rest"
  using sub_spaces_token_False[of "tl t" rest] by (cases t) auto

lemma sub_spaces_Nil_False: "\<forall>c\<in>set t. \<not> is_space c \<Longrightarrow> sub_spaces b t = t"
  by (induction t arbitrary: b) auto

lemma sub_spaces_join:
  "\<forall>t\<in>set ts. t \<noteq> [] \<and> (\<forall>c\<in>set t. \<not> is_space c) \<Longrightarrow> sub_spaces False (join_space ts) = join_space ts"
proof (induction ts rule: join_space.induct)
  case 1
  then show ?case by simp
next
  case (2 t)
  then show ?case by (simp add: sub_spaces_Nil_False)
next
  case (3 t u us)
  then have t: "\<forall>c\<in>set t. \<not> is_space c" "t \<noteq> []" by auto
  obtain a r where ur: "join_space (u # us) = a # r" "\<not> is_space a"
    using 3(2) by (cases u; cases us) auto
  have ih: "sub_spaces False (join_space (u # us)) = join_space (u # us)"
    using 3 by simp
  have "sub_spaces True (a # r) = sub_spaces False (a # r)"
    using ur(2) by simp
  then show ?case
    using sub_spaces_token[OF t, of False "CHR '' '' # join_space (u # us)"] ih ur
    by (simp add: space_is_space)
qed

lemma split_from_token:
  "\<forall>c\<in>set t. \<not> is_space c \<Longrightarrow> split_from cur (t @ rest) = split_from (cur @ t) rest"
  by (induction t arbitrary: cur) auto

lemma split_join:
  "\<forall>t\<in>set ts. t \<noteq> [] \<and> (\<forall>c\<in>set t. \<not> is_space c) \<Longrightarrow> split (join_space ts) = ts"
proof (induction ts rule: join_space.induct)
  case 1
  then show ?case by (simp add: split_def)
next
  case (2 t)
  then show ?case
    using split_from_token[of t "[]" "[]"] by (simp add: split_def)
next
  case (3 t u us)
  then have t: "\<forall>c\<in>set t. \<not> is_space c" "t \<noteq> []" by auto
  have ih: "split_from [] (join_space (u # us)) = u # us"
    using 3 by (simp add: split_def)
  show ?case
    using split_from_token[OF t(1), of "[]" "CHR '' '' # join_space (u # us)"] t(2) ih
    by (simp add: split_def space_is_space)
qed

lemma join_space_ends:
  assumes "\<forall>t\<in>set ts. t \<noteq> [] \<and> (\<forall>c\<in>set t. \<not> is_space c)" "ts \<noteq> []"
  shows "join_space ts \<noteq> [] \<and> \<not> is_space (hd (join_space ts)) \<and> \<not> is_space (last (join_space ts))"
  using assms
proof (induction ts rule: join_space.induct)
  case 1
  then show ?case by simp
next
  case (2 t)
  then show ?case by (cases t) (auto simp: last_in_set)
next
  case (3 t u us)
  then show ?case by (cases t) auto
qed

lemma dropWhile_keep: "xs \<noteq> [] \<Longrightarrow> \<not> P (hd xs) \<Longrightarrow> dropWhile P xs = xs"
  by (cases xs) auto

lemma strip_id: "s = [] \<or> (\<not> is_space (hd s) \<and> \<not> is_space (last s)) \<Longrightarrow> strip s = s"
proof (cases s)
  case Nil
  then show ?thesis by (simp add: strip_def)
next
  case (Cons a r)
  assume "s = [] \<or> (\<not> is_space (hd s) \<and> \<not> is_space (last s))"
  with Cons have h: "\<not> is_space a" "\<not> is_space (last s)" by auto
  have 1: "dropWhile is_space s = s" using Cons h(1) by simp
  have "rev s \<noteq> []" "hd (rev s) = last s" using Cons by (simp_all add: hd_rev)
  then have 2: "dropWhile is_space (rev s) = rev s"
    using h(2) dropWhile_keep[of "rev s" is_space] by simp
  show ?thesis by (simp add: strip_def 1 2)
qed

lemma strip_join:
  "\<forall>t\<in>set ts. t \<noteq> [] \<and> (\<forall>c\<in>set t. \<not> is_space c) \<Longrightarrow> strip (join_space ts) = join_space ts"
proof (cases "ts = []")
  case True
  then show ?thesis by (simp add: strip_def)
next
  case False
  assume "\<forall>t\<in>set ts. t \<noteq> [] \<and> (\<forall>c\<in>set t. \<not> is_space c)"
  from join_space_ends[OF this False] show ?thesis by (intro strip_id) simp
qed

lemma strip_token: "t \<noteq> [] \<Longrightarrow> \<forall>c\<in>set t. \<not> is_space c \<Longrightarrow> strip t = t"
  using strip_join[of "[t]"] by simp

lemma set_join_space: "set (join_space ts) \<subseteq> insert (CHR '' '') (\<Union>(set ` set ts))"
  by (induction ts rule: join_space.induct) auto


lemma stem_tokens_fixed: "\<forall>t\<in>set ts. st t = Some t \<Longrightarrow> stem_tokens st ts = Some ts"
  by (induction ts) auto

lemma tokens_of_normalized_text:
  assumes "list_all (normal_token (case sw of None \<Rightarrow> cached_stopwords e | Some x \<Rightarrow> x)) ts"
  shows "tokens_before_stemming e (join_space ts) sw = ts"
proof -
  let ?s = "join_space ts"
  let ?sw = "case sw of None \<Rightarrow> cached_stopwords e | Some x \<Rightarrow> x"
  have normal: "\<And>t. t \<in> set ts \<Longrightarrow> normal_token ?sw t"
    using assms by (simp add: list_all_iff)
  have tokc: "is_word c \<and> \<not> is_digit c \<and> lower_char c = c" if "t \<in> set ts" "c \<in> set t" for t c
    using normal[OF that(1)] that(2) by (simp add: normal_token_def list_all_iff)
  have tokl: "1 < length t \<and> t \<notin> ?sw" if "t \<in> set ts" for t
    using normal[OF that] by (simp add: normal_token_def)
  have tok: "\<forall>t\<in>set ts. t \<noteq> [] \<and> (\<forall>c\<in>set t. \<not> is_space c)"
  proof (intro ballI conjI)
    fix t assume t: "t \<in> set ts"
    from tokl[OF t] show "t \<noteq> []" by auto
    fix c assume "c \<in> set t"
    from tokc[OF t this] show "\<not> is_space c" by (simp add: word_not_space)
  qed
  have chars: "c = CHR '' '' \<or> (is_word c \<and> \<not> is_digit c \<and> lower_char c = c)" if "c \<in> set ?s" for c
  proof -
    from that set_join_space[of ts] have "c = CHR '' '' \<or> (\<exists>t\<in>set ts. c \<in> set t)" by blast
    then show ?thesis using tokc by blast
  qed
  have lower: "lower ?s = ?s"
    unfolding lower_def
  proof (rule map_idI)
    fix c assume "c \<in> set ?s"
    from chars[OF this] show "lower_char c = c" using space_plain(1) by metis
  qed
  have nobs: "CHR 0x5C \<notin> set ?s"
  proof
    assume "CHR 0x5C \<in> set ?s"
    from chars[OF this] show False using word_not_backslash[of "CHR 0x5C"] space_plain(3) by metis
  qed
  have bs: "sub_backslashes ?s = ?s"
    unfolding sub_backslashes_def
  proof (intro filter_True ballI)
    fix c assume "c \<in> set ?s"
    with nobs show "c \<noteq> CHR 0x5C" by metis
  qed
  have dg: "sub_digits ?s = ?s"
    unfolding sub_digits_def
  proof (intro filter_True ballI)
    fix c assume "c \<in> set ?s"
    from chars[OF this] show "\<not> is_digit c" using space_plain(2) by metis
  qed
  have pn: "sub_punctuation ?s = ?s"
    unfolding sub_punctuation_def
  proof (intro filter_True ballI)
    fix c assume "c \<in> set ?s"
    from chars[OF this] show "is_word c \<or> is_space c" using space_is_space by metis
  qed
  have keep: "filter (\<lambda>token. strip token \<noteq> [] \<and> length token > 1) ts = ts"
  proof (intro filter_True ballI)
    fix t assume t: "t \<in> set ts"
    from tok t have "t \<noteq> []" "\<forall>c\<in>set t. \<not> is_space c" by blast+
    then have "strip t = t" by (rule strip_token)
    with \<open>t \<noteq> []\<close> tokl[OF t] show "strip t \<noteq> [] \<and> length t > 1" by simp
  qed
  have stop: "filter (\<lambda>word. word \<notin> ?sw) ts = ts"
  proof (intro filter_True ballI)
    fix t assume "t \<in> set ts"
    from tokl[OF this] show "t \<notin> ?sw" by simp
  qed
  show ?thesis
    unfolding tokens_before_stemming_def Let_def
    by (simp only: strip_join[OF tok] lower sub_escape_tn_id[OF nobs] sub_escape_u_id[OF nobs] bs dg pn
        sub_spaces_join[OF tok] split_join[OF tok] keep stop)
qed

text \<open>
  Claim C6 fails on the code: the stopword filter runs before the stemmer, so a stem that
  is a stopword reaches the output and is removed by the next call. In the example the
  stemmer reduces \<open>menjauh\<close> to \<open>jauh\<close>, a stopword of the source's list.
\<close>

theorem normalizer_not_idempotent:
  "preprocess_text demo_env ''menjauh'' None = ''jauh''
   \<and> preprocess_text demo_env (preprocess_text demo_env ''menjauh'' None) None = []"
proof -
  have 1: "preprocess_text demo_env ''menjauh'' None = ''jauh''"
    by (simp add: text_defs demo_env_def demo_stemmer_def Let_def)
  have 2: "preprocess_text demo_env ''jauh'' None = []"
    by (simp add: text_defs demo_env_def demo_stemmer_def Let_def)
  from 1 2 show ?thesis by simp
qed

text \<open>
  Claim C6 as amended: the normalizer returns unchanged every text that is normalized
  already, that is, tokens joined by single spaces where each token has two or more
  characters, all of them word characters that are no digits and are in lower case, is no
  stopword, and is returned as it is by the stemmer.
\<close>

theorem normalizer_fixes_normalized_text:
  assumes tokens: "list_all (normal_token (case sw of None \<Rightarrow> cached_stopwords e | Some x \<Rightarrow> x)) ts"
    and stem: "\<forall>st. get_stemmer e = Some st \<longrightarrow> (\<forall>t\<in>set ts. st t = Some t)"
  shows "preprocess_text e (join_space ts) sw = join_space ts"
proof -
  have stemmed: "try_stemming e ts = ts"
  proof (cases "get_stemmer e")
    case None
    then show ?thesis by (simp add: try_stemming_def)
  next
    case (Some st)
    with stem have "\<forall>t\<in>set ts. st t = Some t" by blast
    then show ?thesis using Some by (simp add: try_stemming_def stem_tokens_fixed)
  qed
  have long: "filter (\<lambda>token. token \<noteq> [] \<and> length token > 1) ts = ts"
    using tokens by (intro filter_True) (auto simp: list_all_iff normal_token_def)
  show ?thesis
    by (simp only: preprocess_text_tokens tokens_of_normalized_text[OF tokens] stemmed long)
qed

text \<open>The theorem at a text of two tokens.\<close>

theorem normalizer_fixes_normalized_text_witness:
  "list_all (normal_token (cached_stopwords demo_env)) [''aplikasi'', ''mesin'']
   \<and> get_stemmer demo_env = Some demo_stemmer
   \<and> demo_stemmer ''aplikasi'' = Some ''aplikasi'' \<and> demo_stemmer ''mesin'' = Some ''mesin''
   \<and> preprocess_text demo_env ''aplikasi mesin'' None = ''aplikasi mesin''"
proof -
  have tokens: "list_all (normal_token (case None of None \<Rightarrow> cached_stopwords demo_env | Some x \<Rightarrow> x))
      [''aplikasi'', ''mesin'']"
    by (simp add: normal_token_def demo_env_def is_word_def is_digit_def lower_char_def Let_def)
  have st: "get_stemmer demo_env = Some demo_stemmer" by (simp add: demo_env_def)
  have fixed: "demo_stemmer ''aplikasi'' = Some ''aplikasi''" "demo_stemmer ''mesin'' = Some ''mesin''"
    by (simp_all add: demo_stemmer_def)
  have stem: "\<forall>st. get_stemmer demo_env = Some st \<longrightarrow> (\<forall>t\<in>set [''aplikasi'', ''mesin'']. st t = Some t)"
    using st fixed by auto
  from normalizer_fixes_normalized_text[where sw = None and e = demo_env and ts = "[''aplikasi'', ''mesin'']",
      OF tokens stem]
    tokens st fixed
  show ?thesis by simp
qed


section \<open>The order of the recommendations\<close>

lemma round_half_even_bounds: "\<lfloor>x\<rfloor> \<le> round_half_even x \<and> round_half_even x \<le> \<lfloor>x\<rfloor> + 1"
  by (simp add: round_half_even_def Let_def)

lemma round_half_even_mono:
  assumes "x \<le> y"
  shows "round_half_even x \<le> round_half_even y"
proof (cases "\<lfloor>x\<rfloor> = \<lfloor>y\<rfloor>")
  case True
  with assms show ?thesis
    by (auto simp: round_half_even_def Let_def)
next
  case False
  with assms have "\<lfloor>x\<rfloor> + 1 \<le> \<lfloor>y\<rfloor>"
    using floor_mono[OF assms] by linarith
  with round_half_even_bounds[of x] round_half_even_bounds[of y] show ?thesis by linarith
qed

lemma exact_round4_mono: "x \<le> y \<Longrightarrow> exact_round4 x \<le> exact_round4 y"
  using round_half_even_mono[of "x * 10000" "y * 10000"]
  by (simp add: exact_round4_def divide_right_mono)

text \<open>Score first, larger scores in front; among equal scores the smaller row index in front.\<close>

lemma insort_ranked:
  assumes "sorted_wrt (\<lambda>a b. snd a > snd b \<or> (snd a = snd b \<and> fst a < fst b)) ys"
    and "\<forall>y\<in>set ys. fst x < fst y"
  shows "sorted_wrt (\<lambda>a b. snd a > snd b \<or> (snd a = snd b \<and> fst a < fst b))
           (insort_key (\<lambda>p. - snd p) (x :: nat \<times> real) ys)"
  using assms
proof (induction ys)
  case Nil
  then show ?case by simp
next
  case (Cons y ys)
  show ?case
  proof (cases "- snd x \<le> - snd y")
    case True
    have "snd x > snd z \<or> (snd x = snd z \<and> fst x < fst z)" if "z \<in> set (y # ys)" for z
    proof -
      have "snd z \<le> snd y" using that Cons.prems(1) by auto
      moreover have "fst x < fst z" using that Cons.prems(2) by auto
      ultimately show ?thesis using True by auto
    qed
    with True Cons.prems(1) show ?thesis by auto
  next
    case False
    have ih: "sorted_wrt (\<lambda>a b. snd a > snd b \<or> (snd a = snd b \<and> fst a < fst b))
           (insort_key (\<lambda>p. - snd p) x ys)"
      using Cons by auto
    from False Cons.prems(1) ih show ?thesis
      by (auto simp: set_insort_key)
  qed
qed

lemma sort_ranked:
  "sorted_wrt (\<lambda>a b. fst a < fst b) xs \<Longrightarrow>
   sorted_wrt (\<lambda>a b. snd a > snd b \<or> (snd a = snd b \<and> fst a < fst b))
     (sort_key (\<lambda>p. - snd p) (xs :: (nat \<times> real) list))"
proof (induction xs)
  case Nil
  then show ?case by simp
next
  case (Cons x xs)
  then have "sorted_wrt (\<lambda>a b. snd a > snd b \<or> (snd a = snd b \<and> fst a < fst b))
     (sort_key (\<lambda>p. - snd p) xs)" and "\<forall>y\<in>set (sort_key (\<lambda>p. - snd p) xs). fst x < fst y"
    by auto
  then show ?case
    using insort_ranked[of "sort_key (\<lambda>p. - snd p) xs" x] by (simp add: sort_key_simps)
qed

lemma enumerate_increasing: "sorted_wrt (\<lambda>a b. fst a < fst b) (zip [0..<length row] (row :: real list))"
proof -
  have "sorted_wrt (<) (map fst (zip [0..<length row] row))" by simp
  then show ?thesis by (simp only: sorted_wrt_map)
qed

lemma select_scores_ranked:
  "sorted_wrt (\<lambda>a b. snd a > snd b \<or> (snd a = snd b \<and> fst a < fst b)) (select_scores row top_n ms)"
  unfolding select_scores_def Let_def slice_def sorted_by_score_desc_def
  by (intro sorted_wrt_take sorted_wrt_drop sort_ranked sorted_wrt_filter enumerate_increasing)

lemma select_scores_descending:
  "sorted_wrt (\<lambda>a b. snd a \<ge> snd b) (select_scores row top_n ms)"
  using select_scores_ranked[of row top_n ms]
  by (rule sorted_wrt_mono_rel[rotated]) auto


lemma process_row_score:
  "process_recommendation_row e r score = Some rec \<Longrightarrow> similarity_score rec = np_round e score"
  by (auto simp: process_recommendation_row_def response_fields_def Let_def split: if_splits)

lemma process_serial_scores:
  assumes "process_serial e d scs = Some recs" and "sorted_wrt (\<lambda>a b. snd a \<ge> snd b) scs"
    and mono: "\<forall>x y. x \<le> y \<longrightarrow> np_round e x \<le> np_round e y"
  shows "sorted_wrt (\<lambda>a b. similarity_score a \<ge> similarity_score b) recs
       \<and> (\<forall>r\<in>set recs. \<exists>p\<in>set scs. similarity_score r = np_round e (snd p))"
  using assms
proof (induction scs arbitrary: recs)
  case Nil
  then show ?case by simp
next
  case (Cons p scs)
  obtain i score where p: "p = (i, score)" by (cases p)
  from Cons.prems(1) p obtain recs' where rest: "process_serial e d scs = Some recs'"
    and recs: "recs = recs' \<or> (\<exists>rec. process_recommendation_row e (d ! i) score = Some rec \<and> recs = rec # recs')"
    by (auto split: if_splits option.splits)
  from Cons.prems(2) have tail: "sorted_wrt (\<lambda>a b. snd a \<ge> snd b) scs"
    and le: "\<forall>q\<in>set scs. snd q \<le> score" using p by auto
  from Cons.IH[OF rest tail Cons.prems(3)] have ih: "sorted_wrt (\<lambda>a b. similarity_score a \<ge> similarity_score b) recs'"
    "\<forall>r\<in>set recs'. \<exists>q\<in>set scs. similarity_score r = np_round e (snd q)" by auto
  have below: "\<forall>r\<in>set recs'. similarity_score r \<le> np_round e score"
    using ih(2) le Cons.prems(3) by fastforce
  from recs show ?case
  proof
    assume "recs = recs'"
    with ih show ?thesis by auto
  next
    assume "\<exists>rec. process_recommendation_row e (d ! i) score = Some rec \<and> recs = rec # recs'"
    then obtain rec where r: "process_recommendation_row e (d ! i) score = Some rec" "recs = rec # recs'"
      by blast
    from process_row_score[OF r(1)] have "similarity_score rec = np_round e score" .
    with r(2) ih below p show ?thesis by auto
  qed
qed

lemma process_parallel_scores:
  assumes "process_parallel e d k scs = Some recs" and "sorted_wrt (\<lambda>a b. snd a \<ge> snd b) scs"
    and mono: "\<forall>x y. x \<le> y \<longrightarrow> np_round e x \<le> np_round e y"
  shows "sorted_wrt (\<lambda>a b. similarity_score a \<ge> similarity_score b) recs
       \<and> (\<forall>r\<in>set recs. \<exists>p\<in>set scs. similarity_score r = np_round e (snd p))"
  using assms
proof (induction scs arbitrary: recs k)
  case Nil
  then show ?case by simp
next
  case (Cons p scs)
  obtain i score where p: "p = (i, score)" by (cases p)
  from Cons.prems(1) p obtain recs' where rest: "process_parallel e d (Suc k) scs = Some recs'"
    and recs: "recs = recs' \<or> (\<exists>rec. process_recommendation_row e (d ! i) score = Some rec \<and> recs = rec # recs')"
    by (auto split: if_splits option.splits)
  from Cons.prems(2) have tail: "sorted_wrt (\<lambda>a b. snd a \<ge> snd b) scs"
    and le: "\<forall>q\<in>set scs. snd q \<le> score" using p by auto
  from Cons.IH[OF rest tail Cons.prems(3)] have ih: "sorted_wrt (\<lambda>a b. similarity_score a \<ge> similarity_score b) recs'"
    "\<forall>r\<in>set recs'. \<exists>q\<in>set scs. similarity_score r = np_round e (snd q)" by auto
  have below: "\<forall>r\<in>set recs'. similarity_score r \<le> np_round e score"
    using ih(2) le Cons.prems(3) by fastforce
  from recs show ?case
  proof
    assume "recs = recs'"
    with ih show ?thesis by auto
  next
    assume "\<exists>rec. process_recommendation_row e (d ! i) score = Some rec \<and> recs = rec # recs'"
    then obtain rec where r: "process_recommendation_row e (d ! i) score = Some rec" "recs = rec # recs'"
      by blast
    from process_row_score[OF r(1)] have "similarity_score rec = np_round e score" .
    with r(2) ih below p show ?thesis by auto
  qed
qed

lemma recommend_from_descending:
  assumes "\<forall>x y. x \<le> y \<longrightarrow> np_round e x \<le> np_round e y"
  shows "sorted_wrt (\<lambda>a b. similarity_score a \<ge> similarity_score b)
     (recommend_from e s innovation_id top_n min_similarity)"
  using process_serial_scores[OF _ select_scores_descending assms]
    process_parallel_scores[OF _ select_scores_descending assms]
  by (auto simp: recommend_from_def Let_def split: option.splits)

lemma get_recommendations_result:
  "fst (get_recommendations e innovation_id top_n min_similarity s w) = []
   \<or> fst (get_recommendations e innovation_id top_n min_similarity s w)
       = recommend_from e (fst (snd (get_recommendations e innovation_id top_n min_similarity s w)))
           innovation_id top_n min_similarity"
  by (auto simp: get_recommendations_def Let_def split: prod.splits if_splits)

text \<open>The two loops as one pass over the ranked list, in its order.\<close>

lemma process_parallel_pass:
  "\<forall>p\<in>set scs. fst p < length d \<Longrightarrow>
   process_parallel e d k scs =
     Some (List.map_filter
            (\<lambda>(j, i, score). if future_fails e j then None else process_recommendation_row e (d ! i) score)
            (List.enumerate k scs))"
proof (induction scs arbitrary: k)
  case Nil
  then show ?case by simp
next
  case (Cons p scs)
  obtain i score where p: "p = (i, score)" by (cases p)
  from Cons.prems have "\<forall>q\<in>set scs. fst q < length d" "i < length d" using p by auto
  with Cons.IH[of "Suc k"] show ?case
    unfolding p by (simp split: option.splits)
qed

lemma process_serial_pass:
  "\<forall>p\<in>set scs. fst p < length d \<Longrightarrow>
   process_serial e d scs =
     Some (List.map_filter
            (\<lambda>(j, i, score). process_recommendation_row e (d ! i) score)
            (List.enumerate k scs))"
proof (induction scs arbitrary: k)
  case Nil
  then show ?case by simp
next
  case (Cons p scs)
  obtain i score where p: "p = (i, score)" by (cases p)
  from Cons.prems have "\<forall>q\<in>set scs. fst q < length d" "i < length d" using p by auto
  with Cons.IH[of "Suc k"] show ?case
    unfolding p by (simp split: option.splits)
qed

lemma recommend_from_pass:
  assumes "df s = Some d" "cosine_sim s = Some sim" "first_index d innovation_id = Some idx"
    "idx < length sim" "\<forall>p\<in>set (select_scores (sim ! idx) top_n min_similarity). fst p < length d"
  shows "recommend_from e s innovation_id top_n min_similarity =
     List.map_filter
       (\<lambda>(j, i, score).
          if length (select_scores (sim ! idx) top_n min_similarity) > 10 \<and> future_fails e j then None
          else process_recommendation_row e (d ! i) score)
       (List.enumerate 0 (select_scores (sim ! idx) top_n min_similarity))"
  using assms process_serial_pass[OF assms(5), of e 0] process_parallel_pass[OF assms(5), of e 0]
  by (simp add: recommend_from_def Let_def)


text \<open>
  Claim C8 fails on the code as it is worded, for the scores that are returned: the sort
  is on the unrounded scores and the rounding comes after it. In the example \<open>B\<close> (row 1)
  and \<open>C\<close> (row 2) have the scores 0.50001 and 0.50003 against \<open>A\<close>; both are returned
  with the \<open>similarity_score\<close> 0.5, \<open>C\<close> before \<open>B\<close>, against the row order.
\<close>

theorem rounded_ties_counterexample:
  "first_index (the (df tie_engine)) ''B'' = Some 1
   \<and> first_index (the (df tie_engine)) ''C'' = Some 2
   \<and> select_scores (the (cosine_sim tie_engine) ! 0) 5 (1 / 100) = [(2, 0.50003), (1, 0.50001)]
   \<and> map (\<lambda>r. (rec_id r, similarity_score r))
         (fst (get_recommendations demo_env ''A'' 5 (1 / 100) tie_engine
                 (demo_world\<lparr>reads := 1, fetches := 1\<rparr>)))
       = [(''C'', 1 / 2), (''B'', 1 / 2)]"
proof -
  have up: "[0..<3] = [0, 1, 2]" by (simp add: upt_rec)
  have sel: "select_scores [1, 50001 / 100000, 50003 / 100000] 5 (1 / 100)
      = [(2, 50003 / 100000), (1, 50001 / 100000)]"
    by (simp add: select_scores_def up sorted_by_score_desc_def slice_def slice_bound_def Let_def)
  have lib: "validate_response demo_env = (\<lambda>rec. True)" "np_round demo_env = exact_round4"
    by (simp_all add: demo_env_def)
  have r4: "exact_round4 (50003 / 100000) = 1 / 2" "exact_round4 (50001 / 100000) = 1 / 2"
    by (simp_all add: exact_round4_def round_half_even_def Let_def)
  have res: "map (\<lambda>r. (rec_id r, similarity_score r))
         (fst (get_recommendations demo_env ''A'' 5 (1 / 100) tie_engine
                 (demo_world\<lparr>reads := 1, fetches := 1\<rparr>)))
       = [(''C'', 1 / 2), (''B'', 1 / 2)]"
    by (simp add: get_recommendations_def strip_def is_space_def time_time_def demo_world_def Let_def
        recommend_from_def tie_engine_def demo_engine_def demo_row_def sel
        process_recommendation_row_def response_fields_def lib r4)
  have idx: "first_index (the (df tie_engine)) ''B'' = Some 1"
    "first_index (the (df tie_engine)) ''C'' = Some 2"
    by (simp_all add: tie_engine_def demo_engine_def demo_row_def)
  have sel': "select_scores (the (cosine_sim tie_engine) ! 0) 5 (1 / 100) = [(2, 0.50003), (1, 0.50001)]"
    using sel by (simp add: tie_engine_def)
  from idx sel' res show ?thesis by simp
qed

text \<open>
  Claim C8 as amended, for every rounding that is monotone (as rounding to four places
  is). The results of \<open>get_recommendations\<close> are non-increasing in \<open>similarity_score\<close>. They
  are the results of \<open>recommend_from\<close> on the snapshot the call ends with (or none), which
  materializes the ranked list \<open>sim_scores\<close> in one pass, in its order, leaving out the
  rows that fail; and the ranked list is ordered by the unrounded score, larger first,
  rows of equal unrounded score in their original row order. Nothing is said about the
  row order of results whose scores differ and round to the same value.
\<close>

theorem recommendations_ranked:
  assumes "\<forall>x y. x \<le> y \<longrightarrow> np_round e x \<le> np_round e y"
  shows "sorted_wrt (\<lambda>a b. similarity_score a \<ge> similarity_score b)
     (fst (get_recommendations e innovation_id top_n min_similarity s w))
   \<and> (fst (get_recommendations e innovation_id top_n min_similarity s w) = []
      \<or> fst (get_recommendations e innovation_id top_n min_similarity s w)
          = recommend_from e (fst (snd (get_recommendations e innovation_id top_n min_similarity s w)))
              innovation_id top_n min_similarity)
   \<and> sorted_wrt (\<lambda>a b. snd a > snd b \<or> (snd a = snd b \<and> fst a < fst b))
        (select_scores sim_row top_n min_similarity)
   \<and> (df s = Some d \<and> cosine_sim s = Some sim \<and> first_index d innovation_id = Some idx
        \<and> idx < length sim
        \<and> (\<forall>p\<in>set (select_scores (sim ! idx) top_n min_similarity). fst p < length d)
      \<longrightarrow> recommend_from e s innovation_id top_n min_similarity =
           List.map_filter
             (\<lambda>(j, i, score).
                if length (select_scores (sim ! idx) top_n min_similarity) > 10 \<and> future_fails e j
                then None
                else process_recommendation_row e (d ! i) score)
             (List.enumerate 0 (select_scores (sim ! idx) top_n min_similarity)))"
proof -
  have "sorted_wrt (\<lambda>a b. similarity_score a \<ge> similarity_score b)
     (fst (get_recommendations e innovation_id top_n min_similarity s w))"
    using get_recommendations_result[of e innovation_id top_n min_similarity s w]
      recommend_from_descending[OF assms,
        of "fst (snd (get_recommendations e innovation_id top_n min_similarity s w))"
        innovation_id top_n min_similarity]
    by auto
  then show ?thesis
    using get_recommendations_result[of e innovation_id top_n min_similarity s w]
      select_scores_ranked[of sim_row top_n min_similarity]
      recommend_from_pass[of s d sim innovation_id idx top_n min_similarity e]
    by blast
qed

text \<open>
  The theorem at the snapshot with the two nearly equal scores, for the record \<open>A\<close> and
  the minimum 0: \<open>C\<close> and \<open>B\<close> in the order of their unrounded scores, then nothing else.
\<close>

theorem recommendations_ranked_witness:
  "np_round demo_env = exact_round4
   \<and> df tie_engine = Some [demo_row ''A'' ''aplikasi'', demo_row ''B'' ''aplikasi'', demo_row ''C'' ''mesin'']
   \<and> cosine_sim tie_engine = Some [[1, 0.50001, 0.50003], [0.50001, 1, 0.2], [0.50003, 0.2, 1]]
   \<and> first_index [demo_row ''A'' ''aplikasi'', demo_row ''B'' ''aplikasi'', demo_row ''C'' ''mesin''] ''A''
        = Some 0
   \<and> select_scores [1, 0.50001, 0.50003] 5 0 = [(2, 0.50003), (1, 0.50001)]
   \<and> map (\<lambda>r. (rec_id r, similarity_score r)) (recommend_from demo_env tie_engine ''A'' 5 0)
        = [(''C'', 1 / 2), (''B'', 1 / 2)]
   \<and> sorted_wrt (\<lambda>a b. similarity_score a \<ge> similarity_score b)
        (fst (get_recommendations demo_env ''A'' 5 0 tie_engine (demo_world\<lparr>reads := 1, fetches := 1\<rparr>)))"
proof -
  let ?d = "[demo_row ''A'' ''aplikasi'', demo_row ''B'' ''aplikasi'', demo_row ''C'' ''mesin'']"
  let ?sim = "[[1, 0.50001, 0.50003], [0.50001, 1, 0.2], [0.50003, 0.2, 1 :: real]]"
  have rnd: "np_round demo_env = exact_round4" by (simp add: demo_env_def)
  have mono: "\<forall>x y. x \<le> y \<longrightarrow> np_round demo_env x \<le> np_round demo_env y"
    unfolding rnd using exact_round4_mono by blast
  have d: "df tie_engine = Some ?d" and sim: "cosine_sim tie_engine = Some ?sim"
    by (simp_all add: tie_engine_def demo_engine_def)
  have idx: "first_index ?d ''A'' = Some 0" by (simp add: demo_row_def)
  have up: "[0..<3] = [0, 1, 2]" by (simp add: upt_rec)
  have sel0: "select_scores [1, 50001 / 100000, 50003 / 100000] 5 0
      = [(2, 50003 / 100000), (1, 50001 / 100000)]"
    by (simp add: select_scores_def up sorted_by_score_desc_def slice_def slice_bound_def Let_def)
  have sel: "select_scores (?sim ! 0) 5 0 = [(2, 50003 / 100000), (1, 50001 / 100000)]"
    using sel0 by simp
  have range: "\<forall>p\<in>set (select_scores (?sim ! 0) 5 0). fst p < length ?d"
    using sel0 by simp
  have v: "validate_response demo_env = (\<lambda>rec. True)" by (simp add: demo_env_def)
  have r4: "exact_round4 (50003 / 100000) = 1 / 2" "exact_round4 (50001 / 100000) = 1 / 2"
    by (simp_all add: exact_round4_def round_half_even_def Let_def)
  note inst = recommendations_ranked[OF mono, of "''A''" 5 0 tie_engine
      "demo_world\<lparr>reads := 1, fetches := 1\<rparr>" "[1, 0.50001, 0.50003]" ?d ?sim 0]
  from inst d sim idx range
  have pass: "recommend_from demo_env tie_engine ''A'' 5 0 =
           List.map_filter
             (\<lambda>(j, i, score).
                if length (select_scores (?sim ! 0) 5 0) > 10 \<and> future_fails demo_env j
                then None
                else process_recommendation_row demo_env (?d ! i) score)
             (List.enumerate 0 (select_scores (?sim ! 0) 5 0))"
    by simp
  have res: "map (\<lambda>r. (rec_id r, similarity_score r)) (recommend_from demo_env tie_engine ''A'' 5 0)
        = [(''C'', 1 / 2), (''B'', 1 / 2)]"
    unfolding pass sel
    by (simp add: process_recommendation_row_def response_fields_def v rnd demo_row_def r4)
  from inst rnd d sim idx sel0 res show ?thesis by simp
qed


section \<open>The similarity matrix\<close>

lemma dot_commute: "dot u v = dot v u"
  unfolding dot_def
  by (induction u arbitrary: v) (auto simp: zip_Cons1 zip_Cons split: list.splits)

lemma dot_zero: "\<forall>a\<in>set u. a = 0 \<Longrightarrow> dot u v = 0"
  unfolding dot_def
  by (induction u arbitrary: v) (auto simp: zip_Cons1 split: list.splits)

lemma exact_cosine_commute: "exact_cosine u v = exact_cosine v u"
  by (simp add: exact_cosine_def dot_commute)

lemma exact_cosine_zero: "\<forall>a\<in>set u. a = 0 \<Longrightarrow> exact_cosine u v = 0"
proof -
  assume z: "\<forall>a\<in>set u. a = 0"
  then have "row_norm u = 0" by (simp add: row_norm_def dot_zero)
  then have "normalize_row u = u" by (simp add: normalize_row_def)
  with z show ?thesis by (simp add: exact_cosine_def dot_zero)
qed

lemma committed_rows:
  "map processed_text (map (\<lambda>i. (rows ! i)\<lparr>processed_text := texts ! i\<rparr>)
       (filter (\<lambda>i. strip (texts ! i) \<noteq> []) [0..<length texts]))
   = filter (\<lambda>x. strip x \<noteq> []) texts"
  using map_nth_filter[of texts "\<lambda>x. strip x \<noteq> []"] by (simp add: comp_def)

text \<open>
  Claim C9 fails on the code: a record whose terms were all dropped by the vectorizer has
  the zero vector, and its similarity to itself is 0, not 1. In the example catalog the
  only term of record \<open>C\<close> occurs in one document, which \<open>min_df = 2\<close> drops; the model is
  built, and its diagonal entry for \<open>C\<close> is 0.
\<close>

theorem similarity_diagonal_counterexample:
  "init demo_env 3600 demo_world = (demo_engine, demo_world\<lparr>reads := 1, fetches := 1\<rparr>)
   \<and> is_initialized demo_engine
   \<and> map_option (\<lambda>m. m ! 2 ! 2) (cosine_sim demo_engine) = Some 0"
  using demo_init by (simp add: demo_engine_def)

text \<open>
  Claim C9 as amended. Of the libraries it is assumed that \<open>fit_transform\<close> returns one
  vector per text and that \<open>cosine_similarity\<close> fills entry \<open>(i, j)\<close> with a value \<open>cosine\<close>
  of row \<open>i\<close> of its first and row \<open>j\<close> of its second argument that does not depend on the
  order of the two rows and is 0 for the zero vector with itself; nothing is assumed on
  the value for other vectors, which floating point need not make 1. Then the matrix that
  a successful rebuild commits is square with one row and column per retained record and
  symmetric, and its diagonal entry for a record is the library's value for the record's
  vector with itself, which is 0 for every record whose vector is zero.
\<close>

theorem similarity_matrix_shape:
  assumes lib: "\<forall>X Y K. sk_cosine_similarity e X Y = Some K \<longrightarrow>
                          K = map (\<lambda>x. map (\<lambda>y. cosine x y) Y) X"
    and symmetric: "\<forall>u v. cosine u v = cosine v u"
    and zero: "\<forall>u. (\<forall>a\<in>set u. a = 0) \<longrightarrow> cosine u u = 0"
    and vectors: "\<forall>texts tf X. fit_transform e texts = Some (tf, X) \<longrightarrow> length X = length texts"
    and run: "rebuild e t s w = (True, s', w')"
  shows "\<exists>d sim tf X. df s' = Some d \<and> cosine_sim s' = Some sim
           \<and> fit_transform e (map processed_text d) = Some (tf, X)
           \<and> length sim = length d \<and> (\<forall>r\<in>set sim. length r = length d)
           \<and> (\<forall>i<length d. \<forall>j<length d. sim ! i ! j = sim ! j ! i)
           \<and> (\<forall>i<length d. sim ! i ! i = cosine (X ! i) (X ! i))
           \<and> (\<forall>i<length d. (\<forall>a\<in>set (X ! i). a = 0) \<longrightarrow> sim ! i ! i = 0)"
proof -
  define texts where "texts = catalog_texts e (store w (fetches w))"
  define valid where "valid = filter (\<lambda>x. strip x \<noteq> []) texts"
  define d where "d = map (\<lambda>i. (create_combined_features (validate_and_clean_data (store w (fetches w))) ! i)
                                  \<lparr>processed_text := texts ! i\<rparr>)
                          (filter (\<lambda>i. strip (texts ! i) \<noteq> []) [0..<length texts])"
  from run obtain tf X sim where ft: "fit_transform e valid = Some (tf, X)"
    and cs: "sk_cosine_similarity e X X = Some sim"
    and s': "s' = s\<lparr>df := Some d, tfidf := Some tf, cosine_sim := Some sim,
                    last_update := t, is_initialized := True\<rparr>"
    unfolding rebuild_flat Let_def texts_def[symmetric] valid_def[symmetric] d_def[symmetric]
    by (auto split: if_splits option.splits)
  from lib cs have sim: "sim = map (\<lambda>x. map (\<lambda>y. cosine x y) X) X" by blast
  have texts_d: "map processed_text d = valid"
    unfolding d_def valid_def by (rule committed_rows)
  from vectors ft have lenX: "length X = length valid" by blast
  have lend: "length d = length valid"
    using texts_d by (metis length_map)
  have shape: "length sim = length d" "\<forall>r\<in>set sim. length r = length d"
    using lenX lend by (auto simp: sim)
  have entry: "sim ! i ! j = cosine (X ! i) (X ! j)" if "i < length d" "j < length d" for i j
    using that lenX lend by (simp add: sim)
  have sym: "\<forall>i<length d. \<forall>j<length d. sim ! i ! j = sim ! j ! i"
    using entry symmetric by simp
  have diag: "\<forall>i<length d. sim ! i ! i = cosine (X ! i) (X ! i)"
    using entry by simp
  have diag0: "\<forall>i<length d. (\<forall>a\<in>set (X ! i). a = 0) \<longrightarrow> sim ! i ! i = 0"
    using entry zero by simp
  from s' ft texts_d shape sym diag diag0 show ?thesis
    by (intro exI[of _ d] exI[of _ sim] exI[of _ tf] exI[of _ X]) simp
qed

text \<open>The theorem at the rebuild of the example catalog, with the exact cosine.\<close>

theorem similarity_matrix_shape_witness:
  "rebuild demo_env 5000 (new_engine 3600) demo_world
       = (True, demo_engine, demo_world\<lparr>fetches := 1\<rparr>)
   \<and> (\<exists>d sim tf X. df demo_engine = Some d \<and> cosine_sim demo_engine = Some sim
           \<and> fit_transform demo_env (map processed_text d) = Some (tf, X)
           \<and> length sim = length d \<and> (\<forall>r\<in>set sim. length r = length d)
           \<and> (\<forall>i<length d. \<forall>j<length d. sim ! i ! j = sim ! j ! i)
           \<and> (\<forall>i<length d. sim ! i ! i = exact_cosine (X ! i) (X ! i))
           \<and> (\<forall>i<length d. (\<forall>a\<in>set (X ! i). a = 0) \<longrightarrow> sim ! i ! i = 0))"
proof -
  have lib: "\<forall>X Y K. sk_cosine_similarity demo_env X Y = Some K \<longrightarrow>
                          K = map (\<lambda>x. map (\<lambda>y. exact_cosine x y) Y) X"
    by (simp add: demo_env_def exact_cosine_similarity_def)
  have symmetric: "\<forall>u v. exact_cosine u v = exact_cosine v u"
    using exact_cosine_commute by blast
  have zero: "\<forall>u. (\<forall>a\<in>set u. a = 0) \<longrightarrow> exact_cosine u u = 0"
    using exact_cosine_zero by blast
  have vectors: "\<forall>texts tf X. fit_transform demo_env texts = Some (tf, X) \<longrightarrow> length X = length texts"
    by (auto simp: demo_env_def)
  have st: "store demo_world = (\<lambda>k. demo_catalog)" "fetches demo_world = 0"
    by (simp_all add: demo_world_def)
  have run: "rebuild demo_env 5000 (new_engine 3600) demo_world
       = (True, demo_engine, demo_world\<lparr>fetches := 1\<rparr>)"
    by (simp add: demo_rebuild[OF st(1)] st(2) new_engine_def demo_engine_def)
  from similarity_matrix_shape[OF lib symmetric zero vectors run] run show ?thesis by simp
qed


section \<open>Rebuilding before retrieval\<close>

lemma strip_Nil: "strip [] = []"
  by (simp add: strip_def)

lemma rebuild_world: "snd (snd (rebuild e t s w)) = w\<lparr>fetches := fetches w + 1\<rparr>"
  using rebuild_fetches[of e t s w] by (cases "rebuild e t s w") auto

text \<open>A recommendation on a stale snapshot: one rebuild, and the answer from its outcome.\<close>

lemma recommend_stale:
  assumes id: "strip innovation_id \<noteq> []"
    and built: "is_initialized s"
    and stale: "clock w (reads w) - last_update s > of_int (cache_ttl s)"
    and mono: "clock w (reads w) \<le> clock w (reads w + 1)"
  shows "get_recommendations e innovation_id top_n min_similarity s w =
     (case rebuild e (clock w (reads w + 1)) s (w\<lparr>reads := reads w + 2\<rparr>) of
        (ok, s1, w1) \<Rightarrow> (if ok then recommend_from e s1 innovation_id top_n min_similarity else [], s1, w1))"
proof -
  from id have ne: "innovation_id \<noteq> []" using strip_Nil by auto
  from stale mono have slow: "\<not> clock w (reads w + 1) - last_update s < of_int (cache_ttl s)"
    by linarith
  show ?thesis
    using ne id built stale slow
    by (simp add: get_recommendations_def initialize_model_def time_time_def Let_def
        split: prod.splits)
qed

lemma initialize_fetches:
  "fetches w \<le> fetches (snd (snd (initialize_model e f s w)))"
  by (simp add: initialize_model_def time_time_def Let_def rebuild_world split: prod.splits)

lemma initialize_unbuilt:
  "\<not> is_initialized s \<Longrightarrow> fetches (snd (snd (initialize_model e f s w))) = fetches w + 1"
  by (simp add: initialize_model_def time_time_def Let_def rebuild_world split: prod.splits)

lemma recommend_unbuilt:
  assumes id: "strip innovation_id \<noteq> []" and unbuilt: "\<not> is_initialized s"
  shows "fetches w < fetches (snd (snd (get_recommendations e innovation_id top_n min_similarity s w)))"
proof -
  from id have ne: "innovation_id \<noteq> []" using strip_Nil by auto
  obtain ok s1 w1 where first: "initialize_model e False s w = (ok, s1, w1)"
    by (cases "initialize_model e False s w")
  from initialize_unbuilt[OF unbuilt, of e False w] first have w1: "fetches w1 = fetches w + 1" by simp
  show ?thesis
  proof (cases ok)
    case False
    with ne id unbuilt first w1 show ?thesis
      by (simp add: get_recommendations_def)
  next
    case True
    have "fetches (w1\<lparr>reads := reads w1 + 1\<rparr>)
            \<le> fetches (snd (snd (initialize_model e False s1 (w1\<lparr>reads := reads w1 + 1\<rparr>))))"
      by (rule initialize_fetches)
    with True ne id unbuilt first w1 show ?thesis
      by (auto simp: get_recommendations_def time_time_def Let_def split: prod.splits if_splits)
  qed
qed


lemma rebuild_committed:
  "rebuild e t s w = (True, s1, w1) \<Longrightarrow>
   is_initialized s1 \<and> last_update s1 = t \<and> cache_ttl s1 = cache_ttl s"
  unfolding rebuild_def Let_def
  by (auto split: prod.splits if_splits sum.splits option.splits)

text \<open>
  A recommendation on an engine that is not initialized: one rebuild, then the answer
  from what it committed, unless that snapshot is stale again at the next reading of the
  clock, in which case \<open>initialize_model\<close> is called once more.
\<close>

lemma recommend_absent:
  assumes id: "strip innovation_id \<noteq> []" and unbuilt: "\<not> is_initialized s"
  shows "get_recommendations e innovation_id top_n min_similarity s w =
     (case rebuild e (clock w (reads w)) s (w\<lparr>reads := reads w + 1\<rparr>) of
        (ok, s1, w1) \<Rightarrow>
          if \<not> ok then ([], s1, w1)
          else if clock w (reads w + 1) - clock w (reads w) > of_int (cache_ttl s)
          then (case initialize_model e False s1 (w1\<lparr>reads := reads w + 2\<rparr>) of
                  (ok2, s2, w2) \<Rightarrow>
                    (if ok2 then recommend_from e s2 innovation_id top_n min_similarity else [], s2, w2))
          else (recommend_from e s1 innovation_id top_n min_similarity, s1, w1\<lparr>reads := reads w + 2\<rparr>))"
proof -
  from id have ne: "innovation_id \<noteq> []" using strip_Nil by auto
  obtain ok s1 w1 where r: "rebuild e (clock w (reads w)) s (w\<lparr>reads := reads w + 1\<rparr>) = (ok, s1, w1)"
    by (cases "rebuild e (clock w (reads w)) s (w\<lparr>reads := reads w + 1\<rparr>)")
  from rebuild_fetches[OF r] have w1: "w1 = w\<lparr>reads := reads w + 1, fetches := fetches w + 1\<rparr>"
    by simp
  have first: "initialize_model e False s w = (ok, s1, w1)"
    using unbuilt r by (simp add: initialize_model_def time_time_def Let_def)
  show ?thesis
  proof (cases ok)
    case False
    with ne id unbuilt first r show ?thesis
      by (simp add: get_recommendations_def)
  next
    case True
    from r True have "rebuild e (clock w (reads w)) s (w\<lparr>reads := reads w + 1\<rparr>) = (True, s1, w1)"
      by simp
    from rebuild_committed[OF this]
    have f: "last_update s1 = clock w (reads w)" "cache_ttl s1 = cache_ttl s" by simp_all
    from True ne id unbuilt first r f show ?thesis
      by (simp add: get_recommendations_def time_time_def Let_def w1 split: prod.splits)
  qed
qed

text \<open>
  Claim C3 fails on the code for \<open>search_innovations\<close>: it never rebuilds. On an engine that
  is not initialized it returns the empty list although the store holds the example
  catalog, and on a snapshot older than the TTL (built at 5000, read at 9000, TTL 3600) it
  answers from that snapshot; in both cases nothing is fetched.
\<close>

theorem search_does_not_rebuild:
  "\<not> is_initialized (new_engine 3600)
   \<and> search_innovations demo_env ''aplikasi'' 10 (new_engine 3600) demo_world
       = ([], new_engine 3600, demo_world)
   \<and> is_initialized demo_engine
   \<and> clock (demo_world\<lparr>reads := 4000, fetches := 1\<rparr>) 4000 - last_update demo_engine
       > of_int (cache_ttl demo_engine)
   \<and> snd (search_innovations demo_env ''aplikasi'' 10 demo_engine (demo_world\<lparr>reads := 4000, fetches := 1\<rparr>))
       = (demo_engine, demo_world\<lparr>reads := 4000, fetches := 1\<rparr>)
   \<and> map rec_id (fst (search_innovations demo_env ''aplikasi'' 10 demo_engine
                        (demo_world\<lparr>reads := 4000, fetches := 1\<rparr>))) = [''B'', ''A'']"
proof -
  have q: "preprocess_text demo_env ''aplikasi'' None = ''aplikasi''"
    by (simp add: text_defs demo_env_def demo_stemmer_def Let_def)
  have cos: "exact_cosine_similarity [[1]] [[1], [1], [0]] = [[1, 1, 0]]"
    by (simp add: exact_cosine_similarity_def exact_cosine_def normalize_row_def row_norm_def dot_def)
  have lib: "sk_cosine_similarity demo_env = (\<lambda>X Y. Some (exact_cosine_similarity X Y))"
    "argsort demo_env = (\<lambda>xs. sort_key (\<lambda>i. xs ! i) [0..<length xs])"
    "validate_response demo_env = (\<lambda>rec. True)"
    by (simp_all add: demo_env_def)
  have up: "[0..<3] = [0, 1, 2]" by (simp add: upt_rec)
  have found: "map rec_id (search_snapshot demo_env ''aplikasi'' 10 demo_engine) = [''B'', ''A'']"
    by (simp add: search_snapshot_def q demo_engine_def demo_vectorizer_def demo_vector_def demo_row_def
        strip_def is_space_def lib cos up slice_from_def slice_bound_def
        process_recommendation_row_def response_fields_def Let_def)
  have none: "search_snapshot demo_env ''aplikasi'' 10 (new_engine 3600) = []"
    by (simp add: search_snapshot_def new_engine_def)
  from found none show ?thesis
    by (simp add: search_innovations_def new_engine_def demo_engine_def demo_world_def)
qed

text \<open>
  Claim C3 as amended. A call of \<open>get_recommendations\<close> with an id that is not blank
  rebuilds before it answers. When the engine is not initialized it rebuilds at once,
  returns the empty list if that fails, and otherwise answers from the snapshot the
  rebuild committed (after one more call of \<open>initialize_model\<close> if that snapshot is older
  than the TTL at the next reading of the clock). When the snapshot is older than the TTL
  at the time the call reads, the clock not running backwards up to the next reading,
  exactly one rebuild is made and the answer is taken from its outcome.
  \<open>search_innovations\<close> never rebuilds: it leaves the engine and the world as they are,
  and returns the empty list when the engine is not initialized.
\<close>

theorem retrieval_rebuild:
  "(strip innovation_id \<noteq> [] \<and> \<not> is_initialized s \<longrightarrow>
      get_recommendations e innovation_id top_n min_similarity s w =
        (case rebuild e (clock w (reads w)) s (w\<lparr>reads := reads w + 1\<rparr>) of
           (ok, s1, w1) \<Rightarrow>
             if \<not> ok then ([], s1, w1)
             else if clock w (reads w + 1) - clock w (reads w) > of_int (cache_ttl s)
             then (case initialize_model e False s1 (w1\<lparr>reads := reads w + 2\<rparr>) of
                     (ok2, s2, w2) \<Rightarrow>
                       (if ok2 then recommend_from e s2 innovation_id top_n min_similarity else [], s2, w2))
             else (recommend_from e s1 innovation_id top_n min_similarity, s1,
                   w1\<lparr>reads := reads w + 2\<rparr>))
      \<and> fetches w < fetches (snd (snd (get_recommendations e innovation_id top_n min_similarity s w))))
   \<and> (strip innovation_id \<noteq> [] \<and> is_initialized s
        \<and> clock w (reads w) - last_update s > of_int (cache_ttl s)
        \<and> clock w (reads w) \<le> clock w (reads w + 1) \<longrightarrow>
      get_recommendations e innovation_id top_n min_similarity s w =
        (case rebuild e (clock w (reads w + 1)) s (w\<lparr>reads := reads w + 2\<rparr>) of
           (ok, s1, w1) \<Rightarrow>
             (if ok then recommend_from e s1 innovation_id top_n min_similarity else [], s1, w1))
      \<and> fetches (snd (snd (get_recommendations e innovation_id top_n min_similarity s w))) = fetches w + 1)
   \<and> search_innovations e query n s w = (search_snapshot e query n s, s, w)
   \<and> (\<not> is_initialized s \<longrightarrow> fst (search_innovations e query n s w) = [])"
proof -
  have unbuilt: "get_recommendations e innovation_id top_n min_similarity s w =
        (case rebuild e (clock w (reads w)) s (w\<lparr>reads := reads w + 1\<rparr>) of
           (ok, s1, w1) \<Rightarrow>
             if \<not> ok then ([], s1, w1)
             else if clock w (reads w + 1) - clock w (reads w) > of_int (cache_ttl s)
             then (case initialize_model e False s1 (w1\<lparr>reads := reads w + 2\<rparr>) of
                     (ok2, s2, w2) \<Rightarrow>
                       (if ok2 then recommend_from e s2 innovation_id top_n min_similarity else [], s2, w2))
             else (recommend_from e s1 innovation_id top_n min_similarity, s1,
                   w1\<lparr>reads := reads w + 2\<rparr>))
      \<and> fetches w < fetches (snd (snd (get_recommendations e innovation_id top_n min_similarity s w)))"
    if h: "strip innovation_id \<noteq> []" "\<not> is_initialized s"
    using recommend_absent[OF h, of e top_n min_similarity w]
      recommend_unbuilt[OF h, of w e top_n min_similarity]
    by simp
  have stale: "get_recommendations e innovation_id top_n min_similarity s w =
        (case rebuild e (clock w (reads w + 1)) s (w\<lparr>reads := reads w + 2\<rparr>) of
           (ok, s1, w1) \<Rightarrow>
             (if ok then recommend_from e s1 innovation_id top_n min_similarity else [], s1, w1))
      \<and> fetches (snd (snd (get_recommendations e innovation_id top_n min_similarity s w))) = fetches w + 1"
    if h: "strip innovation_id \<noteq> []" "is_initialized s"
      "clock w (reads w) - last_update s > of_int (cache_ttl s)"
      "clock w (reads w) \<le> clock w (reads w + 1)"
  proof -
    note eq = recommend_stale[OF h, of e top_n min_similarity]
    have "fetches (snd (snd (get_recommendations e innovation_id top_n min_similarity s w))) = fetches w + 1"
      unfolding eq using rebuild_world[of e "clock w (reads w + 1)" s "w\<lparr>reads := reads w + 2\<rparr>"]
      by (auto split: prod.splits)
    with eq show ?thesis by simp
  qed
  have search: "search_innovations e query n s w = (search_snapshot e query n s, s, w)"
    by (simp add: search_innovations_def)
  have empty: "fst (search_innovations e query n s w) = []" if "\<not> is_initialized s"
    using that by (simp add: search_innovations_def search_snapshot_def)
  from unbuilt stale search empty show ?thesis by blast
qed

text \<open>
  The theorem at an engine that is not initialized, where the call rebuilds from the
  example catalog and recommends \<open>B\<close> for \<open>A\<close>, and at the example snapshot read at 9000.
\<close>

theorem retrieval_rebuild_witness:
  "strip ''A'' \<noteq> [] \<and> \<not> is_initialized (new_engine 3600)
   \<and> rebuild demo_env (clock demo_world (reads demo_world)) (new_engine 3600)
        (demo_world\<lparr>reads := reads demo_world + 1\<rparr>)
       = (True, demo_engine, demo_world\<lparr>reads := 1, fetches := 1\<rparr>)
   \<and> fst (snd (get_recommendations demo_env ''A'' 5 (1 / 100) (new_engine 3600) demo_world)) = demo_engine
   \<and> map rec_id (fst (get_recommendations demo_env ''A'' 5 (1 / 100) (new_engine 3600) demo_world)) = [''B'']
   \<and> fetches demo_world
       < fetches (snd (snd (get_recommendations demo_env ''A'' 5 (1 / 100) (new_engine 3600) demo_world)))
   \<and> fst (search_innovations demo_env ''aplikasi'' 10 (new_engine 3600) demo_world) = []
   \<and> is_initialized demo_engine
   \<and> clock (demo_world\<lparr>reads := 4000, fetches := 1\<rparr>) (reads (demo_world\<lparr>reads := 4000, fetches := 1\<rparr>))
         - last_update demo_engine > of_int (cache_ttl demo_engine)
   \<and> fetches (snd (snd (get_recommendations demo_env ''A'' 5 (1 / 100) demo_engine
                           (demo_world\<lparr>reads := 4000, fetches := 1\<rparr>)))) = 2"
proof -
  let ?w = "demo_world\<lparr>reads := 4000, fetches := 1\<rparr>"
  have id: "strip ''A'' \<noteq> []" by (simp add: strip_def is_space_def)
  have u: "\<not> is_initialized (new_engine 3600)" by (simp add: new_engine_def)
  have b: "is_initialized demo_engine" by (simp add: demo_engine_def)
  have st: "clock ?w (reads ?w) - last_update demo_engine > of_int (cache_ttl demo_engine)"
    by (simp add: demo_world_def demo_engine_def)
  have mono: "clock ?w (reads ?w) \<le> clock ?w (reads ?w + 1)"
    by (simp add: demo_world_def)
  have f: "fetches ?w = 1" by simp
  have w0: "store (demo_world\<lparr>reads := reads demo_world + 1\<rparr>) = (\<lambda>k. demo_catalog)"
    "clock demo_world (reads demo_world) = 5000" "reads demo_world = 0" "fetches demo_world = 0"
    "clock demo_world (reads demo_world + 1) = 5001" "clock demo_world 0 = 5000"
    "clock demo_world (Suc 0) = 5001"
    by (simp_all add: demo_world_def)
  have reb: "rebuild demo_env (clock demo_world (reads demo_world)) (new_engine 3600)
        (demo_world\<lparr>reads := reads demo_world + 1\<rparr>)
       = (True, demo_engine, demo_world\<lparr>reads := 1, fetches := 1\<rparr>)"
    by (subst demo_rebuild[OF w0(1)]) (simp add: w0 new_engine_def demo_engine_def)
  have fresh: "\<not> clock demo_world (reads demo_world + 1) - clock demo_world (reads demo_world)
                  > of_int (cache_ttl (new_engine 3600))"
    by (simp add: w0 new_engine_def)
  have up: "[0..<3] = [0, 1, 2]" by (simp add: upt_rec)
  have sel: "select_scores [1, 1, 0] 5 (1 / 100) = [(1, 1)]"
    by (simp add: select_scores_def up sorted_by_score_desc_def slice_def slice_bound_def Let_def)
  have v: "validate_response demo_env = (\<lambda>rec. True)" by (simp add: demo_env_def)
  have answer: "map rec_id (recommend_from demo_env demo_engine ''A'' 5 (1 / 100)) = [''B'']"
    by (simp add: recommend_from_def demo_engine_def demo_row_def sel process_recommendation_row_def
        response_fields_def v Let_def)
  note first = retrieval_rebuild[of "''A''" "new_engine 3600" demo_env 5 "1 / 100" demo_world "''aplikasi''" 10]
  note second = retrieval_rebuild[of "''A''" demo_engine demo_env 5 "1 / 100" ?w "''aplikasi''" 10]
  from first id u
  have eq: "get_recommendations demo_env ''A'' 5 (1 / 100) (new_engine 3600) demo_world =
        (case rebuild demo_env (clock demo_world (reads demo_world)) (new_engine 3600)
                (demo_world\<lparr>reads := reads demo_world + 1\<rparr>) of
           (ok, s1, w1) \<Rightarrow>
             if \<not> ok then ([], s1, w1)
             else if clock demo_world (reads demo_world + 1) - clock demo_world (reads demo_world)
                       > of_int (cache_ttl (new_engine 3600))
             then (case initialize_model demo_env False s1 (w1\<lparr>reads := reads demo_world + 2\<rparr>) of
                     (ok2, s2, w2) \<Rightarrow>
                       (if ok2 then recommend_from demo_env s2 ''A'' 5 (1 / 100) else [], s2, w2))
             else (recommend_from demo_env s1 ''A'' 5 (1 / 100), s1,
                   w1\<lparr>reads := reads demo_world + 2\<rparr>))"
    and 1: "fetches demo_world
       < fetches (snd (snd (get_recommendations demo_env ''A'' 5 (1 / 100) (new_engine 3600) demo_world)))"
    and 2: "fst (search_innovations demo_env ''aplikasi'' 10 (new_engine 3600) demo_world) = []"
    by blast+
  have got: "fst (snd (get_recommendations demo_env ''A'' 5 (1 / 100) (new_engine 3600) demo_world)) = demo_engine"
    "map rec_id (fst (get_recommendations demo_env ''A'' 5 (1 / 100) (new_engine 3600) demo_world)) = [''B'']"
    unfolding eq reb using fresh answer by simp_all
  from second id b st mono
  have 3: "fetches (snd (snd (get_recommendations demo_env ''A'' 5 (1 / 100) demo_engine ?w))) = fetches ?w + 1"
    by blast
  from id u reb got 1 2 b st 3 f show ?thesis by simp
qed


section \<open>Threads and the rebuild lock\<close>

lemma filter_update_length:
  "i < length xs \<Longrightarrow>
   length (filter P (xs[i := y])) + (if P (xs ! i) then 1 else 0)
     = length (filter P xs) + (if P y then 1 else 0)"
proof (induction xs arbitrary: i)
  case Nil
  then show ?case by simp
next
  case (Cons x xs)
  then show ?case by (cases i) auto
qed

lemma initial_region: "initial c \<Longrightarrow> length (filter in_region (threads c)) = (if lock_held c then 1 else 0)"
proof -
  assume "initial c"
  then have "\<not> lock_held c" and "\<forall>p\<in>set (threads c). \<not> in_region p"
    by (auto simp: initial_def list_all_iff is_start_def in_region_def split: pc.splits)
  then show ?thesis by (simp add: filter_False)
qed

lemma thread_step_region:
  assumes inv: "length (filter in_region (threads c)) = (if lock_held c then 1 else 0)"
    and step: "thread_step e i c = Some c'"
  shows "length (filter in_region (threads c')) = (if lock_held c' then 1 else 0)"
proof -
  from step have i: "i < length (threads c)"
    by (auto simp: thread_step_def split: if_splits)
  note upd = filter_update_length[OF i, of in_region]
  show ?thesis
  proof (cases "threads c ! i")
    case (Start force)
    with step i inv upd[of "Done True"] upd[of "Waiting (fst (time_time (wld c)))"] show ?thesis
      by (auto simp: thread_step_def in_region_def Let_def split: if_splits prod.splits)
  next
    case (Waiting t)
    with step i inv upd[of "Holding t"] show ?thesis
      by (auto simp: thread_step_def in_region_def split: if_splits)
  next
    case (Holding t)
    with step i inv upd[of "Releasing (fst (rebuild e t (eng c) (wld c)))"] show ?thesis
      by (auto simp: thread_step_def in_region_def Let_def split: if_splits prod.splits)
  next
    case (Releasing ok)
    from Releasing i have "in_region (threads c ! i)" "threads c ! i \<in> set (threads c)"
      using nth_mem[OF i] by (simp_all add: in_region_def)
    then have "filter in_region (threads c) \<noteq> []"
      by (auto simp: filter_empty_conv)
    with inv have held: "lock_held c" "length (filter in_region (threads c)) = 1"
      by (auto split: if_splits)
    with Releasing step i upd[of "Done ok"] show ?thesis
      by (auto simp: thread_step_def in_region_def split: if_splits)
  next
    case (Done ok)
    with step i show ?thesis by (simp add: thread_step_def)
  qed
qed

lemma run_region:
  "length (filter in_region (threads c)) = (if lock_held c then 1 else 0) \<Longrightarrow>
   run e schedule c = Some c' \<Longrightarrow>
   length (filter in_region (threads c')) = (if lock_held c' then 1 else 0)"
proof (induction schedule arbitrary: c)
  case Nil
  then show ?case by simp
next
  case (Cons i schedule)
  from Cons.prems(2) obtain c1 where s1: "thread_step e i c = Some c1" and rest: "run e schedule c1 = Some c'"
    by (auto split: option.splits)
  from thread_step_region[OF Cons.prems(1) s1] Cons.IH[OF _ rest] show ?case by blast
qed

lemma holding_fetches:
  assumes "i < length (threads c)" "threads c ! i = Holding t"
  shows "\<exists>c'. thread_step e i c = Some c' \<and> fetches (wld c') = fetches (wld c) + 1"
  using assms rebuild_fetches[of e t "eng c" "wld c"]
  by (cases "rebuild e t (eng c) (wld c)") (auto simp: thread_step_def)

lemma waiting_enters:
  assumes "i < length (threads c)" "threads c ! i = Waiting t" "\<not> lock_held c"
  shows "thread_step e i c = Some (c\<lparr>lock_held := True, threads := (threads c)[i := Holding t]\<rparr>)"
  using assms by (simp add: thread_step_def)


lemma run_append:
  "run e (xs @ ys) c = (case run e xs c of None \<Rightarrow> None | Some c' \<Rightarrow> run e ys c')"
  by (induction xs arbitrary: c) (auto split: option.splits)

lemma demo_run_two:
  "run demo_env [0, 1] demo_system =
     Some \<lparr>eng = new_engine 3600, wld = demo_world\<lparr>reads := 2\<rparr>, lock_held = False,
           threads = [Waiting 5000, Waiting 5001]\<rparr>"
  by (simp add: thread_step_def demo_system_def time_time_def new_engine_def demo_world_def)

lemma demo_run_three:
  "run demo_env [0, 1, 0] demo_system =
     Some \<lparr>eng = new_engine 3600, wld = demo_world\<lparr>reads := 2\<rparr>, lock_held = True,
           threads = [Holding 5000, Waiting 5001]\<rparr>"
  by (simp add: thread_step_def demo_system_def time_time_def new_engine_def demo_world_def)

lemma demo_run_six:
  "run demo_env [0, 1, 0, 0, 0, 1] demo_system =
     Some \<lparr>eng = demo_engine, wld = demo_world\<lparr>reads := 2, fetches := 1\<rparr>, lock_held = True,
           threads = [Done True, Holding 5001]\<rparr>"
proof -
  have st: "store (demo_world\<lparr>reads := 2\<rparr>) = (\<lambda>k. demo_catalog)" "fetches demo_world = 0"
    by (simp_all add: demo_world_def)
  have reb: "rebuild demo_env 5000 (new_engine 3600) (demo_world\<lparr>reads := 2\<rparr>)
      = (True, demo_engine, demo_world\<lparr>reads := 2, fetches := 1\<rparr>)"
    by (simp add: demo_rebuild[OF st(1)] st(2) new_engine_def demo_engine_def)
  have "run demo_env [0, 0, 1] \<lparr>eng = new_engine 3600, wld = demo_world\<lparr>reads := 2\<rparr>, lock_held = True,
           threads = [Holding 5000, Waiting 5001]\<rparr> =
     Some \<lparr>eng = demo_engine, wld = demo_world\<lparr>reads := 2, fetches := 1\<rparr>, lock_held = True,
           threads = [Done True, Holding 5001]\<rparr>"
    by (simp add: thread_step_def reb)
  with demo_run_three run_append[of demo_env "[0, 1, 0]" "[0, 0, 1]" demo_system]
  show ?thesis by simp
qed

lemma demo_run_seven:
  "run demo_env [0, 1, 0, 0, 0, 1, 1] demo_system =
     Some \<lparr>eng = demo_engine\<lparr>last_update := 5001\<rparr>, wld = demo_world\<lparr>reads := 2, fetches := 2\<rparr>,
           lock_held = True, threads = [Done True, Releasing True]\<rparr>"
proof -
  have st: "store (demo_world\<lparr>reads := 2, fetches := 1\<rparr>) = (\<lambda>k. demo_catalog)"
    by (simp add: demo_world_def)
  have reb: "rebuild demo_env 5001 demo_engine (demo_world\<lparr>reads := 2, fetches := 1\<rparr>)
      = (True, demo_engine\<lparr>last_update := 5001\<rparr>, demo_world\<lparr>reads := 2, fetches := 2\<rparr>)"
    by (subst demo_rebuild[OF st]) (simp add: demo_engine_def)
  have "run demo_env [1] \<lparr>eng = demo_engine, wld = demo_world\<lparr>reads := 2, fetches := 1\<rparr>, lock_held = True,
           threads = [Done True, Holding 5001]\<rparr> =
     Some \<lparr>eng = demo_engine\<lparr>last_update := 5001\<rparr>, wld = demo_world\<lparr>reads := 2, fetches := 2\<rparr>,
           lock_held = True, threads = [Done True, Releasing True]\<rparr>"
    using reb by (simp add: thread_step_def)
  with demo_run_six run_append[of demo_env "[0, 1, 0, 0, 0, 1]" "[1]" demo_system]
  show ?thesis by simp
qed

text \<open>
  Claim C4 fails on the code in its second half: the freshness test stands before
  \<open>with self.lock\<close> and is not repeated inside. Two threads call \<open>initialize_model()\<close> on
  an engine that is not initialized; both pass the test, thread 0 takes the lock, rebuilds
  at 5000, commits and leaves. Thread 1, which waited, enters the region while the
  snapshot is fresh (built at 5000, TTL 3600, its own reading 5001) and fetches and
  rebuilds again.
\<close>

theorem waiting_thread_rebuilds_again:
  "run demo_env [0, 1, 0, 0, 0, 1] demo_system =
     Some \<lparr>eng = demo_engine, wld = demo_world\<lparr>reads := 2, fetches := 1\<rparr>, lock_held = True,
           threads = [Done True, Holding 5001]\<rparr>
   \<and> is_initialized demo_engine
   \<and> 5001 - last_update demo_engine < of_int (cache_ttl demo_engine)
   \<and> run demo_env [0, 1, 0, 0, 0, 1, 1] demo_system =
     Some \<lparr>eng = demo_engine\<lparr>last_update := 5001\<rparr>, wld = demo_world\<lparr>reads := 2, fetches := 2\<rparr>,
           lock_held = True, threads = [Done True, Releasing True]\<rparr>"
  using demo_run_six demo_run_seven by (simp add: demo_engine_def)

text \<open>
  Claim C4 as amended. Rebuild attempts are serialized by one mutual-exclusion region: in
  every state that threads calling \<open>initialize_model\<close> can reach, at most one thread is
  inside it. The staleness condition is tested once, before the lock is taken: a thread
  that waits enters the region as soon as the lock is free, whatever the snapshot is
  then, and a thread inside the region always fetches and rebuilds.
\<close>

theorem rebuilds_serialized:
  assumes "initial c0" and "run e schedule c0 = Some c"
  shows "length (filter in_region (threads c)) \<le> 1
       \<and> (\<forall>i t. i < length (threads c) \<and> threads c ! i = Waiting t \<and> \<not> lock_held c \<longrightarrow>
             thread_step e i c = Some (c\<lparr>lock_held := True, threads := (threads c)[i := Holding t]\<rparr>))
       \<and> (\<forall>i t. i < length (threads c) \<and> threads c ! i = Holding t \<longrightarrow>
             (\<exists>c'. thread_step e i c = Some c' \<and> fetches (wld c') = fetches (wld c) + 1))"
proof -
  from run_region[OF initial_region[OF assms(1)] assms(2)]
  have "length (filter in_region (threads c)) \<le> 1" by (simp split: if_splits)
  then show ?thesis
    using waiting_enters[of _ c _ e] holding_fetches[of _ c _ e] by blast
qed

text \<open>
  The theorem at the two threads of the example: after both have passed the test, and
  after thread 0 has taken the lock.
\<close>

theorem rebuilds_serialized_witness:
  "initial demo_system
   \<and> run demo_env [0, 1] demo_system =
       Some \<lparr>eng = new_engine 3600, wld = demo_world\<lparr>reads := 2\<rparr>, lock_held = False,
             threads = [Waiting 5000, Waiting 5001]\<rparr>
   \<and> thread_step demo_env 1 \<lparr>eng = new_engine 3600, wld = demo_world\<lparr>reads := 2\<rparr>, lock_held = False,
             threads = [Waiting 5000, Waiting 5001]\<rparr> =
       Some \<lparr>eng = new_engine 3600, wld = demo_world\<lparr>reads := 2\<rparr>, lock_held = True,
             threads = [Waiting 5000, Holding 5001]\<rparr>
   \<and> run demo_env [0, 1, 0] demo_system =
       Some \<lparr>eng = new_engine 3600, wld = demo_world\<lparr>reads := 2\<rparr>, lock_held = True,
             threads = [Holding 5000, Waiting 5001]\<rparr>
   \<and> length (filter in_region [Holding 5000, Waiting 5001]) \<le> 1
   \<and> (\<exists>c'. thread_step demo_env 0 \<lparr>eng = new_engine 3600, wld = demo_world\<lparr>reads := 2\<rparr>,
                 lock_held = True, threads = [Holding 5000, Waiting 5001]\<rparr> = Some c'
           \<and> fetches (wld c') = 1)"
proof -
  have init: "initial demo_system"
    by (simp add: initial_def demo_system_def is_start_def)
  have f: "fetches (demo_world\<lparr>reads := 2\<rparr>) = 0" by (simp add: demo_world_def)
  note two = rebuilds_serialized[OF init demo_run_two]
  note three = rebuilds_serialized[OF init demo_run_three]
  from two have enter: "thread_step demo_env 1 \<lparr>eng = new_engine 3600, wld = demo_world\<lparr>reads := 2\<rparr>,
             lock_held = False, threads = [Waiting 5000, Waiting 5001]\<rparr> =
       Some \<lparr>eng = new_engine 3600, wld = demo_world\<lparr>reads := 2\<rparr>, lock_held = True,
             threads = [Waiting 5000, Holding 5001]\<rparr>"
    by simp
  from three have one: "length (filter in_region [Holding 5000, Waiting 5001]) \<le> 1"
    and fetch: "\<exists>c'. thread_step demo_env 0 \<lparr>eng = new_engine 3600, wld = demo_world\<lparr>reads := 2\<rparr>,
                 lock_held = True, threads = [Holding 5000, Waiting 5001]\<rparr> = Some c'
           \<and> fetches (wld c') = 1"
    using f by auto
  from init demo_run_two enter demo_run_three one fetch show ?thesis by blast
qed

end
